theory Spec2Isabelle
  imports Complex_Main "HOL-Library.Sublist"
begin

section \<open>The notebook docs/examples/conda/README.ipynb\<close>

text \<open>
  The source is one Jupyter notebook: a list of cells, each a markdown cell (text, never
  executed) or a code cell. A code cell is either a \<^verbatim>\<open>%%writefile\<close> cell magic (the
  rest of the cell is the content of the file), or a list of lines, each a shell escape
  (\<^verbatim>\<open>!command\<close>) or a Python statement. The text of the notebook is kept as data, the
  Python statements are translated one by one into functions on the state of the kernel.
\<close>

subsection \<open>Values of the libraries the notebook calls\<close>

text \<open>A numpy array: its shape and its elements in row-major order.\<close>

record 'a ndarray =
  shape :: "nat list"
  elems :: "'a list"

definition wf_array :: "'a ndarray \<Rightarrow> bool" where
  "wf_array a \<longleftrightarrow> length (elems a) = prod_list (shape a)"

text \<open>The object returned by \<^verbatim>\<open>datasets.load_digits()\<close>: the images and their labels.\<close>

record 'a bunch =
  images :: "'a ndarray"
  target :: "nat ndarray"

text \<open>
  The classifier \<^verbatim>\<open>svm.SVC(gamma=0.001)\<close>: its parameter, and the arrays it was fitted
  on once \<^verbatim>\<open>fit\<close> has returned.
\<close>

record 'a svc =
  gamma :: rat
  fitted_on :: "('a ndarray \<times> nat ndarray) option"

datatype 'a json =
    JNull
  | JInt int
  | JFloat 'a
  | JStr string
  | JArr "'a json list"
  | JObj "(string \<times> 'a json) list"

text \<open>
  A \<^verbatim>\<open>requests.Response\<close>: the status, and the body parsed as JSON when it parses
  (\<^verbatim>\<open>response.json()\<close> raises otherwise).
\<close>

record 'a response =
  status_code :: nat
  parsed :: "'a json option"

text \<open>
  The exceptions of Python that the model raises itself, and \<open>Raised\<close> for any other
  that a library or the system raises, by its message.
\<close>

datatype exn =
    ModuleNotFoundError string
  | NameError string
  | TypeError
  | IndexError
  | ValueError
  | JSONDecodeError
  | Raised string

subsection \<open>The state of the kernel and of its surroundings\<close>

datatype 'a fcontent = Text "string list" | Pickle "'a svc"

text \<open>
  What a cell shows as the value of its last expression. What the shell commands and the
  \<^verbatim>\<open>%%writefile\<close> magic print while they run is not part of the model.
\<close>

datatype 'a pyvalue = VClassifier "'a svc" | VStrList "string list" | VJson "'a json"

text \<open>The calls that leave the kernel, in the order they are made.\<close>

datatype 'a event =
    FileWritten string
  | ShellRun string nat
  | FitCalled "'a ndarray" "nat ndarray"
  | Dumped string
  | HttpPost string "'a json"
  | Out "'a pyvalue"

record 'a world =
  files :: "string \<rightharpoonup> 'a fcontent"
  exit_code :: "nat option"
  log :: "'a event list"
  digits :: "'a bunch option"
  n_samples :: "nat option"
  data :: "'a ndarray option"
  classifier :: "'a svc option"
  X_train :: "'a ndarray option"
  X_test :: "'a ndarray option"
  y_train :: "nat ndarray option"
  y_test :: "nat ndarray option"
  model_file_name :: "string option"
  x_0 :: "'a ndarray option"
  inference_request :: "'a json option"
  endpoint :: "string option"
  response :: "'a response option"

text \<open>
  Everything the notebook does not decide: which modules the environment has, how a shell
  command exits, what the dataset is, whether fitting, writing a file or the HTTP call
  raise, and what the server answers.
\<close>

record 'a ext =
  installed :: "string \<Rightarrow> bool"
  system :: "string \<Rightarrow> nat"
  fs_write :: "string \<Rightarrow> exn option"
  load_digits :: "exn + 'a bunch"
  fit_raises :: "'a ndarray \<Rightarrow> nat ndarray \<Rightarrow> exn option"
  post :: "string \<Rightarrow> 'a json \<Rightarrow> exn + 'a response"

text \<open>
  A statement either completes with a new state or raises: the exception comes with the
  state at that point (the kernel keeps its namespace after an error).
\<close>

type_synonym 'a result = "(exn \<times> 'a world) + 'a world"

definition final_world :: "'a result \<Rightarrow> 'a world" where
  "final_world r = (case r of Inl (e, w) \<Rightarrow> w | Inr w \<Rightarrow> w)"

definition completed :: "'a result \<Rightarrow> bool" where
  "completed r = (case r of Inl _ \<Rightarrow> False | Inr _ \<Rightarrow> True)"

definition raised :: "'a result \<Rightarrow> exn option" where
  "raised r = (case r of Inl (e, w) \<Rightarrow> Some e | Inr _ \<Rightarrow> None)"

definition initial_world :: "'a world" where
  "initial_world = \<lparr> files = Map.empty, exit_code = None, log = [],
     digits = None, n_samples = None, data = None, classifier = None,
     X_train = None, X_test = None, y_train = None, y_test = None,
     model_file_name = None, x_0 = None, inference_request = None,
     endpoint = None, response = None \<rparr>"

subsection \<open>numpy and scikit-learn, as far as the notebook calls them\<close>

text \<open>\<^verbatim>\<open>len(a)\<close>: the first dimension; an array without dimensions has no length.\<close>

definition np_len :: "'a ndarray \<Rightarrow> exn + nat" where
  "np_len a = (case shape a of [] \<Rightarrow> Inl TypeError | n # _ \<Rightarrow> Inr n)"

text \<open>
  \<^verbatim>\<open>a.reshape((n, -1))\<close>: the second dimension is what is left of the size; numpy
  raises when it cannot be found.
\<close>

definition reshape_rows :: "'a ndarray \<Rightarrow> nat \<Rightarrow> exn + 'a ndarray" where
  "reshape_rows a n =
     (if n = 0 \<or> length (elems a) mod n \<noteq> 0 then Inl ValueError
      else Inr \<lparr> shape = [n, length (elems a) div n], elems = elems a \<rparr>)"

text \<open>
  \<^verbatim>\<open>a[lo:hi]\<close> along the first axis: the bounds are clipped; only an array without
  dimensions cannot be sliced.
\<close>

definition slice_rows :: "nat \<Rightarrow> nat \<Rightarrow> 'a ndarray \<Rightarrow> exn + 'a ndarray" where
  "slice_rows lo hi a =
     (case shape a of
        [] \<Rightarrow> Inl IndexError
      | n # ns \<Rightarrow>
          let lo' = min lo n; hi' = max lo' (min hi n); k = prod_list ns
          in Inr \<lparr> shape = (hi' - lo') # ns,
                   elems = take ((hi' - lo') * k) (drop (lo' * k) (elems a)) \<rparr>)"

text \<open>\<^verbatim>\<open>a.tolist()\<close>: nested lists, one level for each dimension.\<close>

fun tolist_of :: "nat list \<Rightarrow> 'a list \<Rightarrow> 'a json" where
  "tolist_of [] xs = (case xs of [] \<Rightarrow> JNull | x # _ \<Rightarrow> JFloat x)"
| "tolist_of (n # ns) xs =
     JArr (map (\<lambda>i. tolist_of ns (take (prod_list ns) (drop (i * prod_list ns) xs))) [0..<n])"

definition tolist :: "'a ndarray \<Rightarrow> 'a json" where
  "tolist a = tolist_of (shape a) (elems a)"

text \<open>\<^verbatim>\<open>a.shape\<close> is a tuple of integers; in a JSON body it is an array.\<close>

definition shape_json :: "'b ndarray \<Rightarrow> 'a json" where
  "shape_json a = JArr (map (\<lambda>k. JInt (int k)) (shape a))"

text \<open>
  \<^verbatim>\<open>train_test_split(X, y, test_size=t, shuffle=False)\<close> of scikit-learn, for a fraction
  \<open>t\<close>: the arrays must have the same length \<open>n\<close>; the test part is the last
  \<open>\<lceil>t * n\<rceil>\<close> samples, the training part the samples before them, in their order.
\<close>

definition train_test_split ::
  "'a ndarray \<Rightarrow> nat ndarray \<Rightarrow> rat \<Rightarrow>
     exn + ('a ndarray \<times> 'a ndarray \<times> nat ndarray \<times> nat ndarray)" where
  "train_test_split X y test_size =
     (case (np_len X, np_len y) of
        (Inr n, Inr m) \<Rightarrow>
          if n \<noteq> m \<or> test_size \<le> 0 \<or> 1 \<le> test_size then Inl ValueError
          else
            let n_test = nat \<lceil>test_size * of_nat n\<rceil>; n_train = n - n_test
            in (case (slice_rows 0 n_train X, slice_rows n_train (n_train + n_test) X,
                      slice_rows 0 n_train y, slice_rows n_train (n_train + n_test) y) of
                  (Inr Xa, Inr Xb, Inr ya, Inr yb) \<Rightarrow> Inr (Xa, Xb, ya, yb)
                | _ \<Rightarrow> Inl TypeError)
      | _ \<Rightarrow> Inl TypeError)"

subsection \<open>The statements of the code cells\<close>

definition raise :: "exn \<Rightarrow> 'a world \<Rightarrow> 'a result" where
  "raise e w = Inl (e, w)"

text \<open>Reading a name of the namespace that no statement has bound yet raises.\<close>

definition name_of :: "('a world \<Rightarrow> 'b option) \<Rightarrow> string \<Rightarrow> 'a world \<Rightarrow> ('b \<Rightarrow> 'a result) \<Rightarrow> 'a result" where
  "name_of var name w k = (case var w of None \<Rightarrow> raise (NameError name) w | Some v \<Rightarrow> k v)"

text \<open>A library call that raises stops the statement: nothing in the notebook catches it.\<close>

definition call :: "exn + 'b \<Rightarrow> 'a world \<Rightarrow> ('b \<Rightarrow> 'a result) \<Rightarrow> 'a result" where
  "call r w k = (case r of Inl e \<Rightarrow> raise e w | Inr v \<Rightarrow> k v)"

definition display :: "'a pyvalue \<Rightarrow> 'a world \<Rightarrow> 'a world" where
  "display v w = w\<lparr>log := log w @ [Out v]\<rparr>"

text \<open>
  \<^verbatim>\<open>from sklearn import datasets, svm, metrics\<close>,
  \<^verbatim>\<open>from sklearn.model_selection import train_test_split\<close>, \<^verbatim>\<open>import joblib\<close> and
  \<^verbatim>\<open>import requests\<close>: importing from a module that the environment lacks raises.
\<close>

definition py_import :: "string \<Rightarrow> 'a ext \<Rightarrow> 'a world \<Rightarrow> 'a result" where
  "py_import m x w = (if installed x m then Inr w else raise (ModuleNotFoundError m) w)"

text \<open>\<^verbatim>\<open>digits = datasets.load_digits()\<close>\<close>

definition stmt_load_digits :: "'a ext \<Rightarrow> 'a world \<Rightarrow> 'a result" where
  "stmt_load_digits x w = call (load_digits x) w (\<lambda>d. Inr (w\<lparr>digits := Some d\<rparr>))"

text \<open>\<^verbatim>\<open>n_samples = len(digits.images)\<close>\<close>

definition stmt_n_samples :: "'a ext \<Rightarrow> 'a world \<Rightarrow> 'a result" where
  "stmt_n_samples x w =
     name_of digits ''digits'' w (\<lambda>d.
     call (np_len (images d)) w (\<lambda>n.
     Inr (w\<lparr>n_samples := Some n\<rparr>)))"

text \<open>\<^verbatim>\<open>data = digits.images.reshape((n_samples, -1))\<close>\<close>

definition stmt_data :: "'a ext \<Rightarrow> 'a world \<Rightarrow> 'a result" where
  "stmt_data x w =
     name_of digits ''digits'' w (\<lambda>d.
     name_of n_samples ''n_samples'' w (\<lambda>n.
     call (reshape_rows (images d) n) w (\<lambda>a.
     Inr (w\<lparr>data := Some a\<rparr>))))"

text \<open>\<^verbatim>\<open>classifier = svm.SVC(gamma=0.001)\<close>\<close>

definition stmt_classifier :: "'a ext \<Rightarrow> 'a world \<Rightarrow> 'a result" where
  "stmt_classifier x w = Inr (w\<lparr>classifier := Some \<lparr> gamma = 1 / 1000, fitted_on = None \<rparr>\<rparr>)"

text \<open>
  \<^verbatim>\<open>X_train, X_test, y_train, y_test = train_test_split(
      data, digits.target, test_size=0.5, shuffle=False)\<close>
\<close>

definition stmt_split :: "'a ext \<Rightarrow> 'a world \<Rightarrow> 'a result" where
  "stmt_split x w =
     name_of data ''data'' w (\<lambda>a.
     name_of digits ''digits'' w (\<lambda>d.
     call (train_test_split a (target d) (1 / 2)) w (\<lambda>(Xa, Xb, ya, yb).
     Inr (w\<lparr>X_train := Some Xa, X_test := Some Xb, y_train := Some ya, y_test := Some yb\<rparr>))))"

text \<open>
  \<^verbatim>\<open>classifier.fit(X_train, y_train)\<close>, the last expression of its cell: \<^verbatim>\<open>fit\<close>
  returns the classifier, which the cell shows.
\<close>

definition stmt_fit :: "'a ext \<Rightarrow> 'a world \<Rightarrow> 'a result" where
  "stmt_fit x w =
     name_of classifier ''classifier'' w (\<lambda>c.
     name_of X_train ''X_train'' w (\<lambda>X.
     name_of y_train ''y_train'' w (\<lambda>y.
     let w1 = w\<lparr>log := log w @ [FitCalled X y]\<rparr>
     in (case fit_raises x X y of
           Some e \<Rightarrow> raise e w1
         | None \<Rightarrow>
             let c' = c\<lparr>fitted_on := Some (X, y)\<rparr>
             in Inr (display (VClassifier c') (w1\<lparr>classifier := Some c'\<rparr>))))))"

text \<open>\<^verbatim>\<open>model_file_name = "model.joblib"\<close>\<close>

definition stmt_model_file_name :: "'a ext \<Rightarrow> 'a world \<Rightarrow> 'a result" where
  \<open>stmt_model_file_name x w = Inr (w\<lparr>model_file_name := Some ''model.joblib''\<rparr>)\<close>

text \<open>
  \<^verbatim>\<open>joblib.dump(classifier, model_file_name)\<close>, the last expression of its cell:
  \<^verbatim>\<open>dump\<close> returns the list of the files it wrote.
\<close>

definition stmt_dump :: "'a ext \<Rightarrow> 'a world \<Rightarrow> 'a result" where
  "stmt_dump x w =
     name_of classifier ''classifier'' w (\<lambda>c.
     name_of model_file_name ''model_file_name'' w (\<lambda>f.
     let w1 = w\<lparr>log := log w @ [Dumped f]\<rparr>
     in (case fs_write x f of
           Some e \<Rightarrow> raise e w1
         | None \<Rightarrow> Inr (display (VStrList [f]) (w1\<lparr>files := (files w1)(f \<mapsto> Pickle c)\<rparr>)))))"

text \<open>\<^verbatim>\<open>x_0 = X_test[0:1]\<close>\<close>

definition stmt_x_0 :: "'a ext \<Rightarrow> 'a world \<Rightarrow> 'a result" where
  "stmt_x_0 x w =
     name_of X_test ''X_test'' w (\<lambda>X.
     call (slice_rows 0 1 X) w (\<lambda>a.
     Inr (w\<lparr>x_0 := Some a\<rparr>)))"

text \<open>
  \<^verbatim>\<open>inference_request = {"inputs": [{"name": "predict", "shape": x_0.shape,
      "datatype": "FP32", "data": x_0.tolist()}]}\<close>
\<close>

definition request_of :: "'a ndarray \<Rightarrow> 'a json" where
  \<open>request_of a =
     JObj [(''inputs'',
       JArr [JObj [(''name'', JStr ''predict''),
                   (''shape'', shape_json a),
                   (''datatype'', JStr ''FP32''),
                   (''data'', tolist a)]])]\<close>

definition stmt_inference_request :: "'a ext \<Rightarrow> 'a world \<Rightarrow> 'a result" where
  \<open>stmt_inference_request x w =
     name_of x_0 ''x_0'' w (\<lambda>a.
     Inr (w\<lparr>inference_request := Some (request_of a)\<rparr>))\<close>

text \<open>\<^verbatim>\<open>endpoint = "http://localhost:8080/v2/models/mnist-svm/infer"\<close>\<close>

definition stmt_endpoint :: "'a ext \<Rightarrow> 'a world \<Rightarrow> 'a result" where
  \<open>stmt_endpoint x w =
     Inr (w\<lparr>endpoint := Some ''http://localhost:8080/v2/models/mnist-svm/infer''\<rparr>)\<close>

text \<open>\<^verbatim>\<open>response = requests.post(endpoint, json=inference_request)\<close>\<close>

definition stmt_post :: "'a ext \<Rightarrow> 'a world \<Rightarrow> 'a result" where
  "stmt_post x w =
     name_of endpoint ''endpoint'' w (\<lambda>u.
     name_of inference_request ''inference_request'' w (\<lambda>j.
     let w1 = w\<lparr>log := log w @ [HttpPost u j]\<rparr>
     in call (post x u j) w1 (\<lambda>r.
     Inr (w1\<lparr>response := Some r\<rparr>))))"

text \<open>
  \<^verbatim>\<open>response.json()\<close>, the last expression of its cell. A cell shows the value of its
  last expression unless the value is \<^verbatim>\<open>None\<close>, and the JSON value \<^verbatim>\<open>null\<close> parses to
  \<^verbatim>\<open>None\<close>: then the cell shows nothing. (The classifier that \<^verbatim>\<open>fit\<close> returns and
  the list that \<^verbatim>\<open>dump\<close> returns are never \<^verbatim>\<open>None\<close>.)
\<close>

definition stmt_response_json :: "'a ext \<Rightarrow> 'a world \<Rightarrow> 'a result" where
  "stmt_response_json x w =
     name_of response ''response'' w (\<lambda>r.
     (case parsed r of
        None \<Rightarrow> raise JSONDecodeError w
      | Some j \<Rightarrow> if j = JNull then Inr w else Inr (display (VJson j) w)))"

subsection \<open>Cells and their execution\<close>

datatype 'a stmt =
    Bang string
  | Py "'a ext \<Rightarrow> 'a world \<Rightarrow> 'a result"

datatype 'a cell =
    Markdown "string list"
  | Writefile string "string list"
  | Code "'a stmt list"

text \<open>
  A shell escape runs the command in a subshell and stores its exit status in
  \<^verbatim>\<open>_exit_code\<close>: whatever the status is, nothing is raised and the next line runs.
\<close>

fun exec_stmt :: "'a ext \<Rightarrow> 'a stmt \<Rightarrow> 'a world \<Rightarrow> 'a result" where
  "exec_stmt x (Bang cmd) w =
     Inr (w\<lparr>exit_code := Some (system x cmd), log := log w @ [ShellRun cmd (system x cmd)]\<rparr>)"
| "exec_stmt x (Py f) w = f x w"

text \<open>The lines of a cell run in order; an exception ends the cell.\<close>

fun exec_stmts :: "'a ext \<Rightarrow> 'a stmt list \<Rightarrow> 'a world \<Rightarrow> 'a result" where
  "exec_stmts x [] w = Inr w"
| "exec_stmts x (s # ss) w =
     (case exec_stmt x s w of Inl r \<Rightarrow> Inl r | Inr w' \<Rightarrow> exec_stmts x ss w')"

fun run_cell :: "'a ext \<Rightarrow> 'a cell \<Rightarrow> 'a world \<Rightarrow> 'a result" where
  "run_cell x (Markdown ls) w = Inr w"
| "run_cell x (Writefile p ls) w =
     (let w1 = w\<lparr>log := log w @ [FileWritten p]\<rparr>
      in (case fs_write x p of
            Some e \<Rightarrow> raise e w1
          | None \<Rightarrow> Inr (w1\<lparr>files := (files w1)(p \<mapsto> Text ls)\<rparr>)))"
| "run_cell x (Code ss) w = exec_stmts x ss w"

text \<open>Running the notebook: the cells from top to bottom, until one raises.\<close>

fun run_cells :: "'a ext \<Rightarrow> 'a cell list \<Rightarrow> 'a world \<Rightarrow> 'a result" where
  "run_cells x [] w = Inr w"
| "run_cells x (c # cs) w =
     (case run_cell x c w of Inl r \<Rightarrow> Inl r | Inr w' \<Rightarrow> run_cells x cs w')"

subsection \<open>The cells of the notebook\<close>

abbreviation backslash :: char where
  "backslash \<equiv> CHR 0x5C"

definition cell_0 :: "'a cell" where
  \<open>cell_0 =
    Markdown
      [''# Custom Conda environments in MLServer'',
       '''',
       ''It's not unusual that model runtimes require extra dependencies that are not direct dependencies of MLServer.'',
       ''This is the case when we want to use [custom runtimes](../custom/README), but also when our model artifacts are the output of older versions of a toolkit (e.g. models trained with an older version of SKLearn).'',
       '''',
       ''In these cases, since these dependencies (or dependency versions) are not known in advance by MLServer, they **won't be included in the default `seldonio/mlserver` Docker image**.'',
       ''To cover these cases, the **`seldonio/mlserver` Docker image allows you to load custom environments** before starting the server itself.'',
       '''',
       ''This example will walk you through how to create and save an custom environment, so that it can be loaded in MLServer without any extra change to the `seldonio/mlserver` Docker image. '']\<close>

definition cell_1 :: "'a cell" where
  \<open>cell_1 =
    Markdown
      [''## Define our environment'',
       '''',
       ''For this example, we will create a custom environment to serve a model trained with an older version of Scikit-Learn. '',
       ''The first step will be define this environment, using a [`environment.yml`](https://docs.conda.io/projects/conda/en/latest/user-guide/tasks/manage-environments.html#create-env-file-manually). '',
       '''',
       ''Note that these environments can also be created on the fly as we go, and then serialised later.'']\<close>

definition cell_2 :: "'a cell" where
  \<open>cell_2 =
    Writefile ''environment.yml''
      ['''',
       ''name: old-sklearn'',
       ''dependencies:'',
       ''  - python == 3.7'',
       ''  - scikit-learn == 0.20.3'',
       ''  - joblib == 0.13.0'',
       ''  - requests'',
       ''  - pip:'',
       ''        - mlserver == 0.6.0.dev0'',
       ''        - mlserver-sklearn ==0.6.0.dev0'']\<close>

definition cell_3 :: "'a cell" where
  \<open>cell_3 =
    Markdown
      [''### Train model in our custom environment'',
       '''',
       ''To illustrate the point, we will train a Scikit-Learn model using our older environment.'',
       '''',
       ''The first step will be to create and activate an environment which reflects what's outlined in our `environment.yml` file.'',
       '''',
       ''> **NOTE:** If you are running this from a Jupyter Notebook, you will need to restart your Jupyter instance so that it runs from this environment.'']\<close>

definition cell_4 :: "'a cell" where
  \<open>cell_4 =
    Code
      [Bang ''conda env create --force -f environment.yml'',
       Bang ''conda activate old-sklearn'']\<close>

definition cell_5 :: "'a cell" where
  \<open>cell_5 =
    Markdown
      [''We can now train and save a Scikit-Learn model using the older version of our environment.'',
       ''This model will be serialised as `model.joblib`.'',
       '''',
       ''You can find more details of this process in the [Scikit-Learn example](../sklearn/README).'']\<close>

definition cell_6 :: "'a cell" where
  \<open>cell_6 =
    Code
      [Py (py_import ''sklearn''),
       Py (py_import ''sklearn.model_selection''),
       Py stmt_load_digits,
       Py stmt_n_samples,
       Py stmt_data,
       Py stmt_classifier,
       Py stmt_split,
       Py stmt_fit]\<close>

definition cell_7 :: "'a cell" where
  \<open>cell_7 =
    Code
      [Py (py_import ''joblib''),
       Py stmt_model_file_name,
       Py stmt_dump]\<close>

definition cell_8 :: "'a cell" where
  \<open>cell_8 =
    Markdown
      [''### Serialise our custom environment'',
       '''',
       ''Lastly, we will need to serialise our environment in the format expected by MLServer.'',
       ''To do that, we will use a tool called [`conda-pack`](https://conda.github.io/conda-pack/).'',
       '''',
       ''This tool, will save a portable version of our environment as a `.tar.gz` file, also known as _tarball_.'']\<close>

definition cell_9 :: "'a cell" where
  \<open>cell_9 =
    Code
      [Bang ''conda pack --force -n old-sklearn -o old-sklearn.tar.gz'']\<close>

definition cell_10 :: "'a cell" where
  \<open>cell_10 =
    Markdown
      [''## Serving '',
       '''',
       ''Now that we have defined our environment (and we've got a sample artifact trained in that environment), we can move to serving our model.'',
       '''',
       ''To do that, we will first need to select the right runtime through a `model-settings.json` config file.'']\<close>

definition cell_11 :: "'a cell" where
  \<open>cell_11 =
    Writefile ''model-settings.json''
      [''{'',
       ''    "name": "mnist-svm",'',
       ''    "implementation": "mlserver_sklearn.SKLearnModel"'',
       ''}'']\<close>

definition cell_12 :: "'a cell" where
  \<open>cell_12 =
    Markdown
      [''We can then spin up our model, using our custom environment, leveraging MLServer's Docker image.'',
       ''Keep in mind that **you will need Docker installed in your machine to run this example**.'',
       '''',
       ''Our Docker command will need to take into account the following points:'',
       '''',
       ''- Mount the example's folder as a volume so that it can be accessed from within the container.'',
       ''- Let MLServer know that our custom environment's tarball can be found as `old-sklearn.tar.gz`.'',
       ''- Expose port `8080` so that we can send requests from the outside. '',
       '''',
       ''From the command line, this can be done using Docker's CLI as:'',
       '''',
       ''```bash'',
       ''docker run -it --rm '' @ [backslash],
       ''    -v "$PWD":/mnt/models '' @ [backslash],
       ''    -e "MLSERVER_ENV_TARBALL=/mnt/models/old-sklearn.tar.gz" '' @ [backslash],
       ''    -p 8080:8080 '' @ [backslash],
       ''    seldonio/mlserver:0.6.0.dev0'',
       ''```'',
       '''',
       ''Note that we need to keep the server running in the background while we send requests.'',
       ''Therefore, it's best to run this command on a separate terminal session.'']\<close>

definition cell_13 :: "'a cell" where
  \<open>cell_13 =
    Markdown
      [''### Send test inference request'',
       '''',
       ''We now have our model being served by `mlserver`.'',
       ''To make sure that everything is working as expected, let's send a request from our test set.'',
       '''',
       ''For that, we can use the Python types that `mlserver` provides out of box, or we can build our request manually.'']\<close>

definition cell_14 :: "'a cell" where
  \<open>cell_14 =
    Code
      [Py (py_import ''requests''),
       Py stmt_x_0,
       Py stmt_inference_request,
       Py stmt_endpoint,
       Py stmt_post,
       Py stmt_response_json]\<close>

definition cell_15 :: "'a cell" where
  \<open>cell_15 =
    Code
      []\<close>

definition notebook :: "'a cell list" where
  "notebook =
     [cell_0,
      cell_1,
      cell_2,
      cell_3,
      cell_4,
      cell_5,
      cell_6,
      cell_7,
      cell_8,
      cell_9,
      cell_10,
      cell_11,
      cell_12,
      cell_13,
      cell_14,
      cell_15]"

definition run_notebook :: "'a ext \<Rightarrow> 'a result" where
  "run_notebook x = run_cells x notebook initial_world"

subsection \<open>Reading the text of the notebook\<close>

text \<open>
  The words of a shell command line: blanks separate words, except between double
  quotes, and the quotes themselves go away.
\<close>

fun shell_words_from :: "bool \<Rightarrow> string \<Rightarrow> string \<Rightarrow> string list" where
  "shell_words_from q cur [] = (if cur = [] then [] else [cur])"
| "shell_words_from q cur (c # cs) =
     (if c = CHR 0x22 then shell_words_from (\<not> q) cur cs
      else if c = CHR '' '' \<and> \<not> q then
        (if cur = [] then shell_words_from q [] cs else cur # shell_words_from q [] cs)
      else shell_words_from q (cur @ [c]) cs)"

definition shell_words :: "string \<Rightarrow> string list" where
  "shell_words s = shell_words_from False [] s"

text \<open>The word that follows a flag on a command line.\<close>

fun option_arg :: "string \<Rightarrow> string list \<Rightarrow> string option" where
  "option_arg f (w # v # ws) = (if w = f then Some v else option_arg f (v # ws))"
| "option_arg f _ = None"

text \<open>A string cut at the first occurrence of a character, and at every occurrence.\<close>

definition cut_at :: "char \<Rightarrow> string \<Rightarrow> (string \<times> string) option" where
  "cut_at c s =
     (if c \<in> set s then Some (takeWhile (\<lambda>d. d \<noteq> c) s, drop 1 (dropWhile (\<lambda>d. d \<noteq> c) s))
      else None)"

fun split_on :: "char \<Rightarrow> string \<Rightarrow> string list" where
  "split_on c [] = [[]]"
| "split_on c (d # ds) =
     (if d = c then [] # split_on c ds
      else (case split_on c ds of [] \<Rightarrow> [[d]] | w # ws \<Rightarrow> (d # w) # ws))"

definition basename :: "string \<Rightarrow> string" where
  "basename p = last (split_on CHR ''/'' p)"

definition strip :: "string \<Rightarrow> string" where
  "strip s = rev (dropWhile (\<lambda>c. c = CHR '' '') (rev (dropWhile (\<lambda>c. c = CHR '' '') s)))"

text \<open>
  The top-level keys of a YAML mapping written in block style: the lines that start in
  the first column with a key and a colon. The scalar value of such a key is the rest of
  its line.
\<close>

definition yaml_top_level :: "string list \<Rightarrow> (string \<times> string) list" where
  "yaml_top_level ls =
     List.map_filter
       (\<lambda>l. if l = [] \<or> hd l \<in> {CHR '' '', CHR ''-'', CHR ''#''} then None
            else map_option (\<lambda>(k, v). (k, strip v)) (cut_at CHR '':'' l)) ls"

definition yaml_top_keys :: "string list \<Rightarrow> string list" where
  "yaml_top_keys ls = map fst (yaml_top_level ls)"

definition yaml_scalar :: "string \<Rightarrow> string list \<Rightarrow> string option" where
  "yaml_scalar k ls = map_of (yaml_top_level ls) k"

text \<open>
  The members \<^verbatim>\<open>"key": "value"\<close> of a JSON object written one member a line, both
  key and value strings.
\<close>

definition quoted :: "string \<Rightarrow> (string \<times> string) option" where
  "quoted s =
     (case cut_at CHR 0x22 s of
        None \<Rightarrow> None
      | Some (_, r) \<Rightarrow> cut_at CHR 0x22 r)"

definition json_string_members :: "string list \<Rightarrow> (string \<times> string) list" where
  "json_string_members ls =
     List.map_filter
       (\<lambda>l. case quoted l of
              None \<Rightarrow> None
            | Some (k, r) \<Rightarrow>
                (if take 1 (strip r) = '':'' then map_option (\<lambda>(v, _). (k, v)) (quoted r)
                 else None)) ls"

text \<open>
  The commands of a fenced block of a markdown cell: the lines between the fences, a line
  that ends in a backslash continued by the next.
\<close>

definition fenced :: "string \<Rightarrow> string list \<Rightarrow> string list" where
  \<open>fenced lang ls =
     takeWhile (\<lambda>l. l \<noteq> ''```'') (drop 1 (dropWhile (\<lambda>l. l \<noteq> ''```'' @ lang) ls))\<close>

fun join_continued :: "string list \<Rightarrow> string list" where
  "join_continued (l # m # ls) =
     (if l \<noteq> [] \<and> last l = backslash then join_continued ((butlast l @ m) # ls)
      else l # join_continued (m # ls))"
| "join_continued ls = ls"

text \<open>What the cells of a notebook write, run and show as commands to run.\<close>

fun written :: "'a cell \<Rightarrow> (string \<times> string list) list" where
  "written (Writefile p ls) = [(p, ls)]"
| "written _ = []"

definition written_files :: "'a cell list \<Rightarrow> (string \<times> string list) list" where
  "written_files cs = concat (map written cs)"

fun bang :: "'a stmt \<Rightarrow> string list" where
  "bang (Bang c) = [c]"
| "bang (Py f) = []"

fun bangs :: "'a cell \<Rightarrow> string list" where
  "bangs (Code ss) = concat (map bang ss)"
| "bangs _ = []"

definition shell_commands :: "'a cell list \<Rightarrow> string list list" where
  "shell_commands cs = map shell_words (concat (map bangs cs))"

fun shown :: "'a cell \<Rightarrow> string list" where
  "shown (Markdown ls) = join_continued (fenced ''bash'' ls)"
| "shown _ = []"

definition shown_commands :: "'a cell list \<Rightarrow> string list list" where
  "shown_commands cs = map shell_words (concat (map shown cs))"

text \<open>The first command that starts with the given words.\<close>

definition command :: "string list \<Rightarrow> string list list \<Rightarrow> string list option" where
  "command pre cmds = find (\<lambda>ws. take (length pre) ws = pre) cmds"

definition environment_yml :: "'a cell list \<Rightarrow> string list option" where
  "environment_yml cs = map_of (written_files cs) ''environment.yml''"

definition model_settings :: "'a cell list \<Rightarrow> string list option" where
  "model_settings cs = map_of (written_files cs) ''model-settings.json''"

definition conda_activate :: "'a cell list \<Rightarrow> string list option" where
  "conda_activate cs = command [''conda'', ''activate''] (shell_commands cs)"

definition conda_pack :: "'a cell list \<Rightarrow> string list option" where
  "conda_pack cs = command [''conda'', ''pack''] (shell_commands cs)"

definition docker_run :: "'a cell list \<Rightarrow> string list option" where
  "docker_run cs = command [''docker'', ''run''] (shown_commands cs)"

text \<open>
  \<^verbatim>\<open>docker run -v host:container\<close> mounts a host directory in the container, and
  \<^verbatim>\<open>-e NAME=value\<close> sets a variable there. A file under the host directory is found in
  the container under the mount point; a relative path is taken from the working
  directory.
\<close>

definition docker_volume :: "string list \<Rightarrow> (string \<times> string) option" where
  "docker_volume ws = Option.bind (option_arg ''-v'' ws) (cut_at CHR '':'')"

definition docker_env :: "string list \<Rightarrow> (string \<times> string) option" where
  "docker_env ws = Option.bind (option_arg ''-e'' ws) (cut_at CHR ''='')"

definition from_cwd :: "string \<Rightarrow> string \<Rightarrow> string" where
  "from_cwd cwd p = (if take 1 p = ''/'' then p else cwd @ ''/'' @ p)"

definition in_container :: "string \<times> string \<Rightarrow> string \<Rightarrow> string option" where
  "in_container v p =
     (case v of (host, mnt) \<Rightarrow>
        if take (length host + 1) p = host @ ''/'' then Some (mnt @ ''/'' @ drop (length host + 1) p)
        else None)"

text \<open>The name of the model in a URL of the inference protocol: \<^verbatim>\<open>.../v2/models/NAME/infer\<close>.\<close>

fun segment_after :: "string \<Rightarrow> string list \<Rightarrow> string option" where
  "segment_after k (a # b # ss) = (if a = k then Some b else segment_after k (b # ss))"
| "segment_after k _ = None"

definition url_model :: "string \<Rightarrow> string option" where
  "url_model u = segment_after ''models'' (split_on CHR ''/'' u)"

subsection \<open>What a run did\<close>

definition is_http :: "'a event \<Rightarrow> bool" where
  "is_http ev = (case ev of HttpPost u j \<Rightarrow> True | _ \<Rightarrow> False)"

definition is_fit :: "'a event \<Rightarrow> bool" where
  "is_fit ev = (case ev of FitCalled X y \<Rightarrow> True | _ \<Rightarrow> False)"

text \<open>
  The seven steps the specification lists, by number: (1) write the environment
  descriptor, (2) the commands of the environment manager, (3) fit the classifier,
  (4) serialise it, (5) the packaging tool, (6) launch the container, (7) the HTTP POST.
  Writing \<^verbatim>\<open>model-settings.json\<close> and showing a value are none of the seven.
\<close>

definition documented_step :: "'a event \<Rightarrow> nat option" where
  "documented_step ev =
     (case ev of
        FileWritten p \<Rightarrow> if p = ''environment.yml'' then Some 1 else None
      | ShellRun c s \<Rightarrow>
          (let ws = take 2 (shell_words c)
           in if ws = [''conda'', ''env''] \<or> ws = [''conda'', ''activate''] then Some 2
              else if ws = [''conda'', ''pack''] then Some 5
              else if ws = [''docker'', ''run''] then Some 6
              else None)
      | FitCalled X y \<Rightarrow> Some 3
      | Dumped f \<Rightarrow> Some 4
      | HttpPost u j \<Rightarrow> Some 7
      | Out v \<Rightarrow> None)"

definition documented_steps :: "'a event list \<Rightarrow> nat list" where
  "documented_steps evs = List.map_filter documented_step evs"

text \<open>The log of a run without the exit statuses of its shell commands.\<close>

definition forget_status :: "'a event \<Rightarrow> 'a event" where
  "forget_status ev = (case ev of ShellRun c s \<Rightarrow> ShellRun c 0 | _ \<Rightarrow> ev)"

text \<open>
  Two surroundings to run the notebook in: four images of 8 by 8 pixels, every module
  installed, nothing raises, the server answers with an empty JSON object; in the first
  every command exits with status 0, in the second the creation of the environment
  exits with status 1.
\<close>

definition four_digits :: "nat bunch" where
  "four_digits =
     \<lparr> images = \<lparr> shape = [4, 8, 8], elems = replicate 256 0 \<rparr>,
       target = \<lparr> shape = [4], elems = [0, 1, 2, 3] \<rparr> \<rparr>"

definition ext_ok :: "nat ext" where
  "ext_ok =
     \<lparr> installed = (\<lambda>m. True), system = (\<lambda>c. 0), fs_write = (\<lambda>p. None),
       load_digits = Inr four_digits, fit_raises = (\<lambda>X y. None),
       post = (\<lambda>u j. Inr \<lparr> status_code = 200, parsed = Some (JObj []) \<rparr>) \<rparr>"

definition ext_create_fails :: "nat ext" where
  "ext_create_fails =
     ext_ok\<lparr>system :=
       (\<lambda>c. if c = ''conda env create --force -f environment.yml'' then 1 else 0)\<rparr>"

text \<open>A third: as the first, but fitting the classifier raises.\<close>

definition ext_fit_raises :: "nat ext" where
  "ext_fit_raises = ext_ok\<lparr>fit_raises := (\<lambda>X y. Some (Raised ''fit''))\<rparr>"


text \<open>
  What the specification says of failures: those of any step surface, unhandled. So a
  run raises the first exception that a step meets, in the order of the cells: writing
  a file, an import, loading, reshaping and splitting the data, fitting, saving the
  model, the HTTP call, parsing the body of the response. The exit status of a shell
  command and the status code of the response are not read.
\<close>

definition first_failure :: "'a ext \<Rightarrow> exn option" where
  \<open>first_failure x =
     (case fs_write x ''environment.yml'' of Some e \<Rightarrow> Some e | None \<Rightarrow>
     (if \<not> installed x ''sklearn'' then Some (ModuleNotFoundError ''sklearn'') else
     (if \<not> installed x ''sklearn.model_selection''
      then Some (ModuleNotFoundError ''sklearn.model_selection'') else
     (case load_digits x of Inl e \<Rightarrow> Some e | Inr d \<Rightarrow>
     (case np_len (images d) of Inl e \<Rightarrow> Some e | Inr n \<Rightarrow>
     (case reshape_rows (images d) n of Inl e \<Rightarrow> Some e | Inr a \<Rightarrow>
     (case train_test_split a (target d) (1 / 2) of Inl e \<Rightarrow> Some e | Inr (Xa, Xb, ya, yb) \<Rightarrow>
     (case fit_raises x Xa ya of Some e \<Rightarrow> Some e | None \<Rightarrow>
     (if \<not> installed x ''joblib'' then Some (ModuleNotFoundError ''joblib'') else
     (case fs_write x ''model.joblib'' of Some e \<Rightarrow> Some e | None \<Rightarrow>
     (case fs_write x ''model-settings.json'' of Some e \<Rightarrow> Some e | None \<Rightarrow>
     (if \<not> installed x ''requests'' then Some (ModuleNotFoundError ''requests'') else
     (case slice_rows 0 1 Xb of Inl e \<Rightarrow> Some e | Inr b \<Rightarrow>
     (case post x ''http://localhost:8080/v2/models/mnist-svm/infer'' (request_of b) of
        Inl e \<Rightarrow> Some e
      | Inr r \<Rightarrow>
     (case parsed r of None \<Rightarrow> Some JSONDecodeError | Some j \<Rightarrow> None)))))))))))))))\<close>

text \<open>The same surroundings, but every response comes with the status code \<open>c\<close>.\<close>

definition with_status_code :: "nat \<Rightarrow> 'a ext \<Rightarrow> 'a ext" where
  "with_status_code c x =
     x\<lparr>post := (\<lambda>u j. case post x u j of Inl e \<Rightarrow> Inl e | Inr r \<Rightarrow> Inr (r\<lparr>status_code := c\<rparr>))\<rparr>"

text \<open>The positions of the cells of a kind, counted from 0 as the notebook lists them.\<close>

definition cells_where :: "('a cell \<Rightarrow> bool) \<Rightarrow> 'a cell list \<Rightarrow> nat list" where
  "cells_where P cs = map fst (filter (\<lambda>(i, c). P c) (enumerate 0 cs))"

fun is_python :: "'a stmt \<Rightarrow> bool" where
  "is_python (Py f) = True"
| "is_python (Bang c) = False"

fun python_lines :: "'a cell \<Rightarrow> nat" where
  "python_lines (Code ss) = length (filter is_python ss)"
| "python_lines _ = 0"

section \<open>Reasoning about runs\<close>

text \<open>
  A property of the outcome of a run: one of the exception and the state when the run
  raises, one of the final state when it completes.
\<close>

definition outcome :: "(exn \<Rightarrow> 'a world \<Rightarrow> bool) \<Rightarrow> ('a world \<Rightarrow> bool) \<Rightarrow> 'a result \<Rightarrow> bool" where
  "outcome E Q r = (case r of Inl (e, w) \<Rightarrow> E e w | Inr w \<Rightarrow> Q w)"

definition wp_stmts ::
  "(exn \<Rightarrow> 'a world \<Rightarrow> bool) \<Rightarrow> ('a world \<Rightarrow> bool) \<Rightarrow> 'a ext \<Rightarrow> 'a stmt list \<Rightarrow> 'a world \<Rightarrow> bool" where
  "wp_stmts E Q x ss w = outcome E Q (exec_stmts x ss w)"

definition wp_cells ::
  "(exn \<Rightarrow> 'a world \<Rightarrow> bool) \<Rightarrow> ('a world \<Rightarrow> bool) \<Rightarrow> 'a ext \<Rightarrow> 'a cell list \<Rightarrow> 'a world \<Rightarrow> bool" where
  "wp_cells E Q x cs w = outcome E Q (run_cells x cs w)"

definition is_code :: "'a cell \<Rightarrow> bool" where
  "is_code c = (case c of Markdown ls \<Rightarrow> False | _ \<Rightarrow> True)"

text \<open>The cells that run, whatever the two written files contain.\<close>

definition code_cells :: "string list \<Rightarrow> string list \<Rightarrow> 'a cell list" where
  "code_cells l2 l11 =
     [Writefile ''environment.yml'' l2, cell_4, cell_6, cell_7, cell_9,
      Writefile ''model-settings.json'' l11, cell_14, cell_15]"

text \<open>The cells that run before the cell that shows the command of the container.\<close>

definition code_cells_before :: "string list \<Rightarrow> string list \<Rightarrow> 'a cell list" where
  "code_cells_before l2 l11 =
     [Writefile ''environment.yml'' l2, cell_4, cell_6, cell_7, cell_9,
      Writefile ''model-settings.json'' l11]"

text \<open>The arrays the training cell computes from the dataset.\<close>

definition prepared ::
  "'a ext \<Rightarrow> 'a ndarray \<Rightarrow> 'a ndarray \<Rightarrow> nat ndarray \<Rightarrow> nat ndarray \<Rightarrow> bool" where
  "prepared x Xa Xb ya yb \<longleftrightarrow>
     (\<exists>d n a. load_digits x = Inr d \<and> np_len (images d) = Inr n \<and>
        reshape_rows (images d) n = Inr a \<and>
        train_test_split a (target d) (1 / 2) = Inr (Xa, Xb, ya, yb))"

definition posts_ok :: "'a ext \<Rightarrow> 'a world \<Rightarrow> bool" where
  \<open>posts_ok x w \<longleftrightarrow>
     (\<forall>u j. HttpPost u j \<in> set (log w) \<longrightarrow>
        u = ''http://localhost:8080/v2/models/mnist-svm/infer'' \<and>
        (\<exists>Xa Xb ya yb a. prepared x Xa Xb ya yb \<and> slice_rows 0 1 Xb = Inr a \<and>
           j = request_of a))\<close>

definition fits_ok :: "'a ext \<Rightarrow> 'a world \<Rightarrow> bool" where
  "fits_ok x w \<longleftrightarrow>
     (\<forall>X y. FitCalled X y \<in> set (log w) \<longrightarrow> (\<exists>Xb yb. prepared x X Xb y yb))"

definition steps_ok :: "'a world \<Rightarrow> bool" where
  "steps_ok w \<longleftrightarrow>
     prefix (documented_steps (log w)) [1, 2, 2, 3, 4, 5, 7] \<and>
     length (filter is_http (log w)) \<le> 1 \<and> length (filter is_fit (log w)) \<le> 1"

definition full_log ::
  "'a ext \<Rightarrow> 'a ndarray \<Rightarrow> nat ndarray \<Rightarrow> 'a ndarray \<Rightarrow> 'a json \<Rightarrow> 'a event list" where
  \<open>full_log x Xa ya a j =
     [FileWritten ''environment.yml'',
      ShellRun ''conda env create --force -f environment.yml''
        (system x ''conda env create --force -f environment.yml''),
      ShellRun ''conda activate old-sklearn'' (system x ''conda activate old-sklearn''),
      FitCalled Xa ya,
      Out (VClassifier \<lparr> gamma = 1 / 1000, fitted_on = Some (Xa, ya) \<rparr>),
      Dumped ''model.joblib'',
      Out (VStrList [''model.joblib'']),
      ShellRun ''conda pack --force -n old-sklearn -o old-sklearn.tar.gz''
        (system x ''conda pack --force -n old-sklearn -o old-sklearn.tar.gz''),
      FileWritten ''model-settings.json'',
      HttpPost ''http://localhost:8080/v2/models/mnist-svm/infer'' (request_of a)] @
     (if j = JNull then [] else [Out (VJson j)])\<close>

definition done_ok :: "'a ext \<Rightarrow> 'a world \<Rightarrow> bool" where
  \<open>done_ok x w \<longleftrightarrow>
     (\<exists>Xa Xb ya yb a r j. prepared x Xa Xb ya yb \<and> slice_rows 0 1 Xb = Inr a \<and>
        post x ''http://localhost:8080/v2/models/mnist-svm/infer'' (request_of a) = Inr r \<and>
        parsed r = Some j \<and> log w = full_log x Xa ya a j)\<close>

definition raises_ok :: "'a ext \<Rightarrow> exn option \<Rightarrow> 'a world \<Rightarrow> bool" where
  "raises_ok x r w \<longleftrightarrow>
     r = first_failure x \<and>
     (\<forall>p e. FileWritten p \<in> set (log w) \<longrightarrow> fs_write x p = Some e \<longrightarrow> r = Some e) \<and>
     (\<forall>p e. Dumped p \<in> set (log w) \<longrightarrow> fs_write x p = Some e \<longrightarrow> r = Some e) \<and>
     (\<forall>X y e. FitCalled X y \<in> set (log w) \<longrightarrow> fit_raises x X y = Some e \<longrightarrow> r = Some e) \<and>
     (\<forall>u j e. HttpPost u j \<in> set (log w) \<longrightarrow> post x u j = Inl e \<longrightarrow> r = Some e)"

definition files_ok :: "'a ext \<Rightarrow> string list \<Rightarrow> string list \<Rightarrow> 'a world \<Rightarrow> bool" where
  "files_ok x l2 l11 w \<longleftrightarrow>
     files w ''environment.yml'' =
       (case fs_write x ''environment.yml'' of None \<Rightarrow> Some (Text l2) | Some e \<Rightarrow> None) \<and>
     files w ''model-settings.json'' \<in> {None, Some (Text l11)} \<and>
     (\<forall>u j. HttpPost u j \<in> set (log w) \<longrightarrow> files w ''model-settings.json'' = Some (Text l11))"

definition same_but_status :: "'a world \<Rightarrow> 'a world \<Rightarrow> bool" where
  "same_but_status w w' \<longleftrightarrow> map forget_status (log w') = map forget_status (log w)"

subsection \<open>Running the notebook symbolically\<close>

lemma outcome_simps:
  "outcome E Q (Inl (e, w)) = E e w"
  "outcome E Q (Inr w) = Q w"
  "outcome E Q (if b then r1 else r2) = (if b then outcome E Q r1 else outcome E Q r2)"
  "outcome E Q (case o1 of None \<Rightarrow> r1 | Some v \<Rightarrow> g v) =
     (case o1 of None \<Rightarrow> outcome E Q r1 | Some v \<Rightarrow> outcome E Q (g v))"
  "outcome E Q (case s1 of Inl v \<Rightarrow> f v | Inr v \<Rightarrow> h v) =
     (case s1 of Inl v \<Rightarrow> outcome E Q (f v) | Inr v \<Rightarrow> outcome E Q (h v))"
  "outcome E Q (case p1 of (a, b) \<Rightarrow> f2 a b) = (case p1 of (a, b) \<Rightarrow> outcome E Q (f2 a b))"
  by (auto simp: outcome_def split: option.splits sum.splits prod.splits)

lemma case_same:
  "(case o1 of None \<Rightarrow> c | Some v \<Rightarrow> c) = c"
  "(case s1 of Inl a \<Rightarrow> c | Inr b \<Rightarrow> c) = c"
  "(case p1 of (a, b) \<Rightarrow> c) = c"
  by (simp_all split: option.splits sum.splits prod.splits)

lemma wp_stmts_simps:
  "wp_stmts E Q x [] w = Q w"
  "wp_stmts E Q x (s # ss) w = outcome E (wp_stmts E Q x ss) (exec_stmt x s w)"
  by (auto simp: wp_stmts_def outcome_def split: sum.splits)

lemma wp_cells_simps:
  "wp_cells E Q x [] w = Q w"
  "wp_cells E Q x (Code ss # cs) w = wp_stmts E (wp_cells E Q x cs) x ss w"
  "wp_cells E Q x (Writefile p ls # cs) w =
     outcome E (wp_cells E Q x cs) (run_cell x (Writefile p ls) w)"
  by (auto simp: wp_cells_def wp_stmts_def outcome_def split: sum.splits)

lemma run_cells_code: "run_cells x cs w = run_cells x (filter is_code cs) w"
  by (induction cs arbitrary: w) (auto simp: is_code_def split: cell.splits sum.splits)

lemma notebook_code:
  "\<exists>l2 l11. filter is_code notebook = code_cells l2 l11 \<and>
     environment_yml notebook = Some l2 \<and> model_settings notebook = Some l11"
  by (simp add: notebook_def is_code_def code_cells_def environment_yml_def model_settings_def
        written_files_def cell_0_def cell_1_def cell_2_def
        cell_3_def cell_4_def cell_5_def cell_6_def cell_7_def cell_8_def cell_9_def
        cell_10_def cell_11_def cell_12_def cell_13_def cell_14_def cell_15_def)

lemma run_as_wp:
  "\<exists>l2 l11. environment_yml (notebook :: 'a cell list) = Some l2 \<and>
     model_settings (notebook :: 'a cell list) = Some l11 \<and>
     (\<forall>E Q x. outcome E Q (run_notebook x) =
        wp_cells E Q (x :: 'a ext) (code_cells l2 l11) initial_world)"
proof -
  obtain l2 l11 where *: "filter is_code (notebook :: 'a cell list) = code_cells l2 l11"
    "environment_yml (notebook :: 'a cell list) = Some l2"
    "model_settings (notebook :: 'a cell list) = Some l11"
    using notebook_code by blast
  then have "run_notebook x = run_cells x (code_cells l2 l11) initial_world" for x :: "'a ext"
    unfolding run_notebook_def by (subst run_cells_code) simp
  with *(2,3) show ?thesis
    unfolding wp_cells_def by metis
qed

lemma run_wp_text:
  fixes x :: "'a ext"
  assumes "\<And>l2 l11. environment_yml (notebook :: 'a cell list) = Some l2 \<Longrightarrow>
      model_settings (notebook :: 'a cell list) = Some l11 \<Longrightarrow>
      wp_cells E Q x (code_cells l2 l11) initial_world"
  shows "outcome E Q (run_notebook x)"
  using run_as_wp [where ?'a = 'a] assms by metis

lemma run_wp:
  assumes "\<And>l2 l11. wp_cells E Q x (code_cells l2 l11) initial_world"
  shows "outcome E Q (run_notebook x)"
  using assms by (rule run_wp_text)

lemmas run_unfold =
  code_cells_def initial_world_def cell_4_def cell_6_def cell_7_def cell_9_def cell_14_def
  cell_15_def wp_stmts_simps wp_cells_simps outcome_simps case_same if_bool_eq_conj
  py_import_def stmt_load_digits_def stmt_n_samples_def stmt_data_def stmt_classifier_def
  stmt_split_def stmt_fit_def stmt_model_file_name_def stmt_dump_def stmt_x_0_def
  stmt_inference_request_def stmt_endpoint_def stmt_post_def stmt_response_json_def
  raise_def name_of_def call_def display_def Let_def

lemma documented_steps_simps:
  "documented_steps [] = []"
  "documented_steps (FileWritten ''environment.yml'' # evs) = 1 # documented_steps evs"
  "documented_steps (FileWritten ''model-settings.json'' # evs) = documented_steps evs"
  "documented_steps (ShellRun ''conda env create --force -f environment.yml'' s # evs) =
     2 # documented_steps evs"
  "documented_steps (ShellRun ''conda activate old-sklearn'' s # evs) = 2 # documented_steps evs"
  "documented_steps (ShellRun ''conda pack --force -n old-sklearn -o old-sklearn.tar.gz'' s # evs) =
     5 # documented_steps evs"
  "documented_steps (FitCalled X y # evs) = 3 # documented_steps evs"
  "documented_steps (Dumped f # evs) = 4 # documented_steps evs"
  "documented_steps (HttpPost u j # evs) = 7 # documented_steps evs"
  "documented_steps (Out v # evs) = documented_steps evs"
  by (simp_all add: documented_steps_def List.map_filter_def documented_step_def shell_words_def)

lemma is_simps:
  "is_http (HttpPost u j)" "\<not> is_http (FileWritten p)" "\<not> is_http (ShellRun c s)"
  "\<not> is_http (FitCalled X y)" "\<not> is_http (Dumped f)" "\<not> is_http (Out v)"
  "is_fit (FitCalled X y)" "\<not> is_fit (FileWritten p)" "\<not> is_fit (ShellRun c s)"
  "\<not> is_fit (HttpPost u j)" "\<not> is_fit (Dumped f)" "\<not> is_fit (Out v)"
  by (simp_all add: is_http_def is_fit_def)

lemma forget_status_simps:
  "forget_status (ShellRun c s) = ShellRun c 0"
  "forget_status (FileWritten p) = FileWritten p"
  "forget_status (FitCalled X y) = FitCalled X y"
  "forget_status (Dumped f) = Dumped f"
  "forget_status (HttpPost u j) = HttpPost u j"
  "forget_status (Out v) = Out v"
  by (simp_all add: forget_status_def)

lemma run_steps_ok: "outcome (\<lambda>e. steps_ok) steps_ok (run_notebook x)"
  by (rule run_wp)
     (simp add: run_unfold steps_ok_def documented_steps_simps is_simps
        split del: if_split cong: option.case_cong sum.case_cong prod.case_cong)

lemma run_posts_ok: "outcome (\<lambda>e. posts_ok x) (posts_ok x) (run_notebook x)"
  by (rule run_wp)
     (simp add: run_unfold posts_ok_def prepared_def
        split del: if_split cong: option.case_cong sum.case_cong prod.case_cong)

lemma run_fits_ok: "outcome (\<lambda>e. fits_ok x) (fits_ok x) (run_notebook x)"
  by (rule run_wp)
     (simp add: run_unfold fits_ok_def prepared_def
        split del: if_split cong: option.case_cong sum.case_cong prod.case_cong)

lemma run_done_ok: "outcome (\<lambda>e w. True) (done_ok x) (run_notebook x)"
  by (rule run_wp)
     (simp add: run_unfold done_ok_def full_log_def prepared_def
        split del: if_split cong: option.case_cong sum.case_cong prod.case_cong)

lemma run_raises_ok: "outcome (\<lambda>e. raises_ok x (Some e)) (raises_ok x None) (run_notebook x)"
  by (rule run_wp)
     (simp add: run_unfold raises_ok_def first_failure_def
        split del: if_split cong: option.case_cong sum.case_cong prod.case_cong)

lemma run_files_ok:
  fixes x :: "'a ext"
  shows "\<exists>l2 l11. environment_yml (notebook :: 'a cell list) = Some l2 \<and>
     model_settings (notebook :: 'a cell list) = Some l11 \<and>
     outcome (\<lambda>e. files_ok x l2 l11) (files_ok x l2 l11) (run_notebook x)"
proof -
  obtain l2 l11 where *: "environment_yml (notebook :: 'a cell list) = Some l2"
    "model_settings (notebook :: 'a cell list) = Some l11"
    "\<And>E Q x. outcome E Q (run_notebook x) =
        wp_cells E Q (x :: 'a ext) (code_cells l2 l11) initial_world"
    using run_as_wp by metis
  have "wp_cells (\<lambda>e. files_ok x l2 l11) (files_ok x l2 l11) x (code_cells l2 l11) initial_world"
    by (simp add: run_unfold files_ok_def
        split del: if_split cong: option.case_cong sum.case_cong prod.case_cong)
  with * show ?thesis
    by metis
qed

lemma outcome_final: "outcome (\<lambda>e. P) P r \<Longrightarrow> P (final_world r)"
  by (auto simp: outcome_def final_world_def split: sum.splits prod.splits)

lemma outcome_completed: "outcome (\<lambda>e w. True) Q r \<Longrightarrow> completed r \<Longrightarrow> Q (final_world r)"
  by (auto simp: outcome_def final_world_def completed_def split: sum.splits prod.splits)

lemma outcome_raised: "outcome (\<lambda>e. R (Some e)) (R None) r \<Longrightarrow> R (raised r) (final_world r)"
  by (auto simp: outcome_def final_world_def raised_def split: sum.splits prod.splits)

subsection \<open>The split of the dataset\<close>

lemma half_up: "nat \<lceil>(of_nat n :: rat) / 2\<rceil> = Suc n div 2"
proof -
  have "\<lceil>(of_nat n :: rat) / 2\<rceil> = \<lceil>(of_int (int n) :: rat) / of_int 2\<rceil>"
    by simp
  also have "\<dots> = - (- int n div 2)"
    by (rule ceiling_divide_eq_div)
  finally show ?thesis
    by linarith
qed

lemma slice_rows_eq:
  "shape a = n # ns \<Longrightarrow> lo \<le> hi \<Longrightarrow> hi \<le> n \<Longrightarrow>
   slice_rows lo hi a =
     Inr \<lparr> shape = (hi - lo) # ns,
           elems = take ((hi - lo) * prod_list ns) (drop (lo * prod_list ns) (elems a)) \<rparr>"
  by (simp add: slice_rows_def Let_def min_def max_def)

lemma train_test_split_half:
  assumes "shape X = n # ns" "shape y = n # ms"
  shows "train_test_split X y (1 / 2) =
     Inr (\<lparr> shape = (n div 2) # ns, elems = take (n div 2 * prod_list ns) (elems X) \<rparr>,
          \<lparr> shape = (n - n div 2) # ns,
            elems = take ((n - n div 2) * prod_list ns) (drop (n div 2 * prod_list ns) (elems X)) \<rparr>,
          \<lparr> shape = (n div 2) # ms, elems = take (n div 2 * prod_list ms) (elems y) \<rparr>,
          \<lparr> shape = (n - n div 2) # ms,
            elems = take ((n - n div 2) * prod_list ms) (drop (n div 2 * prod_list ms) (elems y)) \<rparr>)"
proof -
  have h: "n - Suc n div 2 = n div 2" "n div 2 + Suc n div 2 = n"
    by linarith+
  have s1: "slice_rows 0 (n div 2) a =
      Inr \<lparr> shape = (n div 2) # ks, elems = take (n div 2 * prod_list ks) (elems a) \<rparr>"
    if "shape a = n # ks" for a :: "'c ndarray" and ks
    using slice_rows_eq [OF that, of 0 "n div 2"] by simp
  have s2: "slice_rows (n div 2) n a =
      Inr \<lparr> shape = (n - n div 2) # ks,
            elems = take ((n - n div 2) * prod_list ks) (drop (n div 2 * prod_list ks) (elems a)) \<rparr>"
    if "shape a = n # ks" for a :: "'c ndarray" and ks
    using slice_rows_eq [OF that, of "n div 2" n] by simp
  show ?thesis
    by (simp add: train_test_split_def np_len_def assms half_up h Let_def
          s1 [OF assms(1)] s2 [OF assms(1)] s1 [OF assms(2)] s2 [OF assms(2)])
qed

lemma train_test_split_shape:
  assumes "train_test_split X y t = Inr r" "shape X = n # ns"
  shows "\<exists>ms. shape y = n # ms"
  using assms by (auto simp: train_test_split_def np_len_def split: list.splits if_splits)

lemma prepared_arrays:
  assumes "prepared x Xa Xb ya yb"
  obtains d n ns ms c where
    "load_digits x = Inr d" "shape (images d) = n # ns" "shape (target d) = n # ms" "0 < n"
    "c = length (elems (images d)) div n"
    "Xa = \<lparr> shape = [n div 2, c], elems = take (n div 2 * c) (elems (images d)) \<rparr>"
    "Xb = \<lparr> shape = [n - n div 2, c],
            elems = take ((n - n div 2) * c) (drop (n div 2 * c) (elems (images d))) \<rparr>"
    "ya = \<lparr> shape = (n div 2) # ms, elems = take (n div 2 * prod_list ms) (elems (target d)) \<rparr>"
proof -
  from assms obtain d n a where
    d: "load_digits x = Inr d" and n: "np_len (images d) = Inr n" and
    a: "reshape_rows (images d) n = Inr a" and
    s: "train_test_split a (target d) (1 / 2) = Inr (Xa, Xb, ya, yb)"
    unfolding prepared_def by blast
  define c where "c = length (elems (images d)) div n"
  from n obtain ns where ns: "shape (images d) = n # ns"
    by (auto simp: np_len_def split: list.splits)
  from a have pos: "0 < n" and a': "shape a = [n, c]" "elems a = elems (images d)"
    by (auto simp: reshape_rows_def c_def split: if_splits)
  from train_test_split_shape [OF s a'(1)] obtain ms where ms: "shape (target d) = n # ms"
    by blast
  from s have "Xa = \<lparr> shape = [n div 2, c], elems = take (n div 2 * c) (elems (images d)) \<rparr>"
    "Xb = \<lparr> shape = [n - n div 2, c],
            elems = take ((n - n div 2) * c) (drop (n div 2 * c) (elems (images d))) \<rparr>"
    "ya = \<lparr> shape = (n div 2) # ms, elems = take (n div 2 * prod_list ms) (elems (target d)) \<rparr>"
    unfolding train_test_split_half [OF a'(1) ms] by (simp_all add: a'(2))
  with d ns ms pos c_def show thesis
    by (rule that)
qed

subsection \<open>The text of the notebook\<close>

lemmas cell_defs =
  cell_0_def cell_1_def cell_2_def cell_3_def cell_4_def cell_5_def cell_6_def cell_7_def
  cell_8_def cell_9_def cell_10_def cell_11_def cell_12_def cell_13_def cell_14_def cell_15_def

lemma environment_yml_top:
  "map_option yaml_top_level (environment_yml notebook) =
     Some [(''name'', ''old-sklearn''), (''dependencies'', [])]"
  by (simp add: environment_yml_def written_files_def notebook_def cell_defs yaml_top_level_def
        List.map_filter_def cut_at_def strip_def)

lemma model_settings_members:
  "map_option json_string_members (model_settings notebook) =
     Some [(''name'', ''mnist-svm''), (''implementation'', ''mlserver_sklearn.SKLearnModel'')]"
  by (simp add: model_settings_def written_files_def notebook_def cell_defs
        json_string_members_def quoted_def List.map_filter_def cut_at_def strip_def)

lemma notebook_shell:
  "shell_commands notebook =
     [[''conda'', ''env'', ''create'', ''--force'', ''-f'', ''environment.yml''],
      [''conda'', ''activate'', ''old-sklearn''],
      [''conda'', ''pack'', ''--force'', ''-n'', ''old-sklearn'', ''-o'', ''old-sklearn.tar.gz'']]"
  by (simp add: shell_commands_def shell_words_def notebook_def cell_defs)

lemma notebook_shown:
  "shown_commands notebook =
     [[''docker'', ''run'', ''-it'', ''--rm'', ''-v'', ''$PWD:/mnt/models'', ''-e'',
       ''MLSERVER_ENV_TARBALL=/mnt/models/old-sklearn.tar.gz'', ''-p'', ''8080:8080'',
       ''seldonio/mlserver:0.6.0.dev0'']]"
  by (simp add: shown_commands_def shell_words_def fenced_def notebook_def cell_defs)

subsection \<open>What every run does\<close>

lemma posts_of_run:
  assumes "HttpPost u j \<in> set (log (final_world (run_notebook x)))"
  shows "u = ''http://localhost:8080/v2/models/mnist-svm/infer''"
    and "\<exists>Xa Xb ya yb a. prepared x Xa Xb ya yb \<and> slice_rows 0 1 Xb = Inr a \<and> j = request_of a"
  using outcome_final [OF run_posts_ok, of x] assms
  by (auto simp: posts_ok_def)

lemma fits_of_run:
  assumes "FitCalled X y \<in> set (log (final_world (run_notebook x)))"
  shows "\<exists>Xb yb. prepared x X Xb y yb"
  using outcome_final [OF run_fits_ok, of x] assms
  by (auto simp: fits_ok_def)

lemma steps_of_run:
  "prefix (documented_steps (log (final_world (run_notebook x)))) [1, 2, 2, 3, 4, 5, 7]"
  "length (filter is_http (log (final_world (run_notebook x)))) \<le> 1"
  "length (filter is_fit (log (final_world (run_notebook x)))) \<le> 1"
  using outcome_final [OF run_steps_ok, of x]
  by (auto simp: steps_ok_def)

lemma completed_log:
  assumes "completed (run_notebook x)"
  obtains Xa Xb ya yb a r j where
    "prepared x Xa Xb ya yb" "slice_rows 0 1 Xb = Inr a"
    "post x ''http://localhost:8080/v2/models/mnist-svm/infer'' (request_of a) = Inr r"
    "parsed r = Some j" "log (final_world (run_notebook x)) = full_log x Xa ya a j"
  using outcome_completed [OF run_done_ok assms]
  unfolding done_ok_def by blast

lemma raised_of_run:
  "raised (run_notebook x) = first_failure x"
  "FileWritten p \<in> set (log (final_world (run_notebook x))) \<Longrightarrow> fs_write x p = Some e \<Longrightarrow>
     raised (run_notebook x) = Some e"
  "Dumped p \<in> set (log (final_world (run_notebook x))) \<Longrightarrow> fs_write x p = Some e \<Longrightarrow>
     raised (run_notebook x) = Some e"
  "FitCalled X y \<in> set (log (final_world (run_notebook x))) \<Longrightarrow> fit_raises x X y = Some e \<Longrightarrow>
     raised (run_notebook x) = Some e"
  "HttpPost u j \<in> set (log (final_world (run_notebook x))) \<Longrightarrow> post x u j = Inl e \<Longrightarrow>
     raised (run_notebook x) = Some e"
  using outcome_raised [of "raises_ok x", OF run_raises_ok]
  by (auto simp: raises_ok_def)

lemma full_log_facts:
  "documented_steps (full_log x Xa ya a j) = [1, 2, 2, 3, 4, 5, 7]"
  "filter is_http (full_log x Xa ya a j) =
     [HttpPost ''http://localhost:8080/v2/models/mnist-svm/infer'' (request_of a)]"
  "filter is_fit (full_log x Xa ya a j) = [FitCalled Xa ya]"
  "dropWhile (\<lambda>ev. \<not> is_http ev) (full_log x Xa ya a j) =
     HttpPost ''http://localhost:8080/v2/models/mnist-svm/infer'' (request_of a) #
     (if j = JNull then [] else [Out (VJson j)])"
  "HttpPost ''http://localhost:8080/v2/models/mnist-svm/infer'' (request_of a)
     \<in> set (full_log x Xa ya a j)"
  "FitCalled Xa ya \<in> set (full_log x Xa ya a j)"
  by (simp_all add: full_log_def documented_steps_simps is_simps)

lemma tolist_of_row:
  assumes "length xs = k"
  shows "tolist_of [k] xs = JArr (map JFloat xs)"
proof -
  have "(case take 1 (drop i xs) of [] \<Rightarrow> JNull | x # _ \<Rightarrow> JFloat x) = JFloat (xs ! i)"
    if "i < length xs" for i
    using that by (simp add: Cons_nth_drop_Suc [symmetric])
  then have "map (\<lambda>i. case take 1 (drop i xs) of [] \<Rightarrow> JNull | x # _ \<Rightarrow> JFloat x) [0..<k] =
      map (\<lambda>i. JFloat (xs ! i)) [0..<length xs]"
    using assms by simp
  also have "\<dots> = map JFloat (map (\<lambda>i. xs ! i) [0..<length xs])"
    by simp
  also have "\<dots> = map JFloat xs"
    by (simp only: map_nth)
  finally show ?thesis
    by simp
qed

lemma first_test_row:
  assumes "prepared x Xa Xb ya yb" "slice_rows 0 1 Xb = Inr a"
    and "load_digits x = Inr d" "shape (images d) = [n, 8, 8]" "wf_array (images d)"
  shows "shape a = [1, 64]"
    and "elems a = take 64 (drop (n div 2 * 64) (elems (images d)))"
    and "length (elems a) = 64"
proof -
  from assms(1) obtain d' n' ns ms c where
    p: "load_digits x = Inr d'" "shape (images d') = n' # ns" "0 < n'"
      "c = length (elems (images d')) div n'"
      "Xb = \<lparr> shape = [n' - n' div 2, c],
              elems = take ((n' - n' div 2) * c) (drop (n' div 2 * c) (elems (images d'))) \<rparr>"
    by (rule prepared_arrays)
  from p assms(3,4) have eq: "d' = d" "n' = n" and pos: "0 < n"
    by simp_all
  from assms(4,5) have len: "length (elems (images d)) = n * 64"
    by (simp add: wf_array_def)
  with p(4) pos have c: "c = 64"
    by (simp add: eq)
  have one: "1 \<le> n - n div 2"
    using pos by linarith
  have "shape Xb = (n - n div 2) # [64]"
    by (simp add: p(5) eq c)
  from slice_rows_eq [OF this _ one, of 0] assms(2)
  have a: "a = \<lparr> shape = [1, 64], elems = take 64 (elems Xb) \<rparr>"
    by simp
  have "64 \<le> (n - n div 2) * 64"
    using one by simp
  then have "take 64 (elems Xb) = take 64 (drop (n div 2 * 64) (elems (images d)))"
    by (simp add: p(5) eq c min_def)
  with a show "shape a = [1, 64]"
    and "elems a = take 64 (drop (n div 2 * 64) (elems (images d)))"
    by simp_all
  have "n div 2 * 64 + 64 \<le> n * 64"
    using one by linarith
  then show "length (elems a) = 64"
    using \<open>elems a = take 64 (drop (n div 2 * 64) (elems (images d)))\<close> len by simp
qed

lemma request_of_row:
  assumes "shape a = [1, 64]" "length (elems a) = 64"
  shows "request_of a =
     JObj [(''inputs'',
       JArr [JObj [(''name'', JStr ''predict''),
                   (''shape'', JArr [JInt 1, JInt 64]),
                   (''datatype'', JStr ''FP32''),
                   (''data'', JArr [JArr (map JFloat (elems a))])]])]"
proof -
  have "tolist a = JArr [tolist_of [64] (elems a)]"
    using assms by (simp add: tolist_def)
  also have "\<dots> = JArr [JArr (map JFloat (elems a))]"
    using assms(2) by (simp only: tolist_of_row)
  finally show ?thesis
    using assms(1) by (simp add: request_of_def shape_json_def)
qed

subsection \<open>The example surroundings\<close>

lemma completed_outcome: "completed r = outcome (\<lambda>e w. False) (\<lambda>w. True) r"
  by (auto simp: completed_def outcome_def split: sum.splits)

lemmas library_defs = np_len_def reshape_rows_def train_test_split_def slice_rows_def

lemma ext_ok_completed: "completed (run_notebook ext_ok)"
  unfolding completed_outcome
  by (rule run_wp)
     (simp add: run_unfold library_defs ext_ok_def four_digits_def
        split del: if_split cong: option.case_cong sum.case_cong prod.case_cong)

lemma ext_create_fails_completed: "completed (run_notebook ext_create_fails)"
  unfolding completed_outcome
  by (rule run_wp)
     (simp add: run_unfold library_defs ext_create_fails_def ext_ok_def four_digits_def
        split del: if_split cong: option.case_cong sum.case_cong prod.case_cong)

lemma ext_fit_raises_fit:
  "outcome (\<lambda>e w. \<exists>X y. FitCalled X y \<in> set (log w)) (\<lambda>w. False) (run_notebook ext_fit_raises)"
  by (rule run_wp)
     (simp add: run_unfold library_defs ext_fit_raises_def ext_ok_def four_digits_def
        split del: if_split cong: option.case_cong sum.case_cong prod.case_cong)

subsection \<open>Exceptions and exit statuses\<close>

lemma completed_raised: "completed r \<longleftrightarrow> raised r = None"
  by (auto simp: completed_def raised_def split: sum.splits)

lemma run_cells_raise:
  "run_cells x cs w0 = Inr w \<Longrightarrow> run_cell x c w = Inl r \<Longrightarrow> run_cells x (cs @ c # cs') w0 = Inl r"
  by (induction cs arbitrary: w0) (auto split: sum.splits)

lemma notebook_positions:
  "cells_where (\<lambda>c. written c \<noteq> []) notebook = [2, 11]"
  "cells_where (\<lambda>c. bangs c \<noteq> []) notebook = [4, 9]"
  "cells_where (\<lambda>c. 0 < python_lines c) notebook = [6, 7, 14]"
  "cells_where (\<lambda>c. shown c \<noteq> []) notebook = [12]"
  "\<not> is_code (notebook ! 12)"
  by (simp_all add: cells_where_def notebook_def cell_defs is_code_def fenced_def)

lemma notebook_code_before:
  "\<exists>l2 l11. filter is_code (take 12 notebook) = code_cells_before l2 l11"
  by (simp add: notebook_def is_code_def code_cells_before_def cell_defs)

lemma steps_before_launch:
  fixes x :: "'a ext"
  shows "outcome (\<lambda>e w. True) (\<lambda>w. documented_steps (log w) = [1, 2, 2, 3, 4, 5])
     (run_cells x (take 12 notebook) initial_world)"
proof -
  obtain l2 l11 where
    "filter is_code (take 12 (notebook :: 'a cell list)) = code_cells_before l2 l11"
    using notebook_code_before by blast
  then have "run_cells x (take 12 notebook) initial_world =
      run_cells x (code_cells_before l2 l11) initial_world"
    by (subst run_cells_code) simp
  moreover have "wp_cells (\<lambda>e w. True) (\<lambda>w. documented_steps (log w) = [1, 2, 2, 3, 4, 5]) x
      (code_cells_before l2 l11) initial_world"
    by (simp add: run_unfold code_cells_before_def documented_steps_simps
          split del: if_split cong: option.case_cong sum.case_cong prod.case_cong)
  ultimately show ?thesis
    by (simp add: wp_cells_def)
qed

lemma run_status_free:
  "outcome
     (\<lambda>e w. outcome (\<lambda>e' w'. e' = e \<and> same_but_status w w') (\<lambda>w'. False) (run_notebook x))
     (\<lambda>w. outcome (\<lambda>e' w'. False) (same_but_status w) (run_notebook x))
     (run_notebook (x\<lparr>system := s\<rparr>))"
proof -
  obtain l2 l11 where
    *: "\<And>E Q x. outcome E Q (run_notebook x) = wp_cells E Q (x :: 'a ext) (code_cells l2 l11) initial_world"
    using run_as_wp by metis
  show ?thesis
    unfolding *
    by (simp add: run_unfold same_but_status_def forget_status_simps
        split del: if_split cong: option.case_cong sum.case_cong prod.case_cong)
qed

lemma status_free:
  "raised (run_notebook (x\<lparr>system := s\<rparr>)) = raised (run_notebook x)"
  "map forget_status (log (final_world (run_notebook (x\<lparr>system := s\<rparr>)))) =
     map forget_status (log (final_world (run_notebook x)))"
  using run_status_free [of x s]
  by (auto simp: outcome_def raised_def final_world_def same_but_status_def
        split: sum.splits prod.splits)

lemma notebook_cell_raises:
  fixes x :: "'a ext"
  assumes "i < length (notebook :: 'a cell list)"
    and "run_cells x (take i notebook) initial_world = Inr w"
    and "run_cell x (notebook ! i) w = Inl r"
  shows "run_notebook x = Inl r"
proof -
  have "(notebook :: 'a cell list) = take i notebook @ notebook ! i # drop (Suc i) notebook"
    using assms(1) by (rule id_take_nth_drop)
  then have "run_notebook x =
      run_cells x (take i notebook @ notebook ! i # drop (Suc i) notebook) initial_world"
    unfolding run_notebook_def by simp
  with run_cells_raise [OF assms(2,3)] show ?thesis
    by simp
qed

subsection \<open>Files, the status code and the value shown\<close>

lemma case_case_sum:
  "(case (case s of Inl a \<Rightarrow> Inl (f a) | Inr b \<Rightarrow> Inr (g b)) of Inl a \<Rightarrow> h a | Inr b \<Rightarrow> k b) =
     (case s of Inl a \<Rightarrow> h (f a) | Inr b \<Rightarrow> k (g b))"
  by (simp split: sum.splits)

lemma run_status_code_free:
  "outcome
     (\<lambda>e w. outcome (\<lambda>e' w'. e' = e \<and> log w' = log w) (\<lambda>w'. False) (run_notebook x))
     (\<lambda>w. outcome (\<lambda>e' w'. False) (\<lambda>w'. log w' = log w) (run_notebook x))
     (run_notebook (with_status_code c x))"
proof -
  obtain l2 l11 where
    *: "\<And>E Q x. outcome E Q (run_notebook x) = wp_cells E Q (x :: 'a ext) (code_cells l2 l11) initial_world"
    using run_as_wp by metis
  show ?thesis
    unfolding *
    by (simp add: run_unfold with_status_code_def case_case_sum
        split del: if_split cong: option.case_cong sum.case_cong prod.case_cong)
qed

lemma status_code_free:
  "raised (run_notebook (with_status_code c x)) = raised (run_notebook x)"
  "log (final_world (run_notebook (with_status_code c x))) = log (final_world (run_notebook x))"
  using run_status_code_free [of x c]
  by (auto simp: outcome_def raised_def final_world_def split: sum.splits prod.splits)


lemma files_of_run:
  fixes x :: "'a ext"
  obtains l2 l11 where
    "environment_yml (notebook :: 'a cell list) = Some l2"
    "model_settings (notebook :: 'a cell list) = Some l11"
    "files_ok x l2 l11 (final_world (run_notebook x))"
proof -
  obtain l2 l11 where "environment_yml (notebook :: 'a cell list) = Some l2"
    "model_settings (notebook :: 'a cell list) = Some l11"
    "outcome (\<lambda>e. files_ok x l2 l11) (files_ok x l2 l11) (run_notebook x)"
    using run_files_ok [of x] by blast
  then show thesis
    using that outcome_final by blast
qed

lemma no_launch: "6 \<notin> set (documented_steps (log (final_world (run_notebook x))))"
proof -
  have "set (documented_steps (log (final_world (run_notebook x)))) \<subseteq> set [1, 2, 2, 3, 4, 5, 7]"
    by (rule set_mono_prefix) (rule steps_of_run)
  then show ?thesis
    by auto
qed

section \<open>The claims\<close>

subsection \<open>About the files and the text of the notebook\<close>

text \<open>
  C7. The environment descriptor that a run writes is a name and a dependency list: when
  the file can be written, the run leaves a file \<^verbatim>\<open>environment.yml\<close> whose top-level
  keys are \<^verbatim>\<open>name\<close> and \<^verbatim>\<open>dependencies\<close>, in this order, and nothing else; no run
  leaves the file with any other content, and its content is the text of cell 2.
\<close>

theorem environment_yml_keys:
  fixes x :: "'a ext"
  shows
  "(fs_write x ''environment.yml'' = None \<longrightarrow>
      (\<exists>ls. files (final_world (run_notebook x)) ''environment.yml'' = Some (Text ls) \<and>
         yaml_top_keys ls = [''name'', ''dependencies''])) \<and>
   (\<forall>e. fs_write x ''environment.yml'' = Some e \<longrightarrow>
      files (final_world (run_notebook x)) ''environment.yml'' = None) \<and>
   (\<forall>c. files (final_world (run_notebook x)) ''environment.yml'' = Some c \<longrightarrow>
      (\<exists>ls. c = Text ls \<and> environment_yml (notebook :: 'a cell list) = Some ls \<and>
         yaml_top_keys ls = [''name'', ''dependencies'']))"
proof -
  obtain l2 l11 where
    l: "environment_yml (notebook :: 'a cell list) = Some l2"
    and f: "files_ok x l2 l11 (final_world (run_notebook x))"
    by (rule files_of_run)
  from l environment_yml_top [where ?'a = 'a]
  have k: "yaml_top_keys l2 = [''name'', ''dependencies'']"
    by (simp add: yaml_top_keys_def)
  from f have "files (final_world (run_notebook x)) ''environment.yml'' =
      (case fs_write x ''environment.yml'' of None \<Rightarrow> Some (Text l2) | Some e \<Rightarrow> None)"
    by (simp add: files_ok_def)
  with l k show ?thesis
    by (auto split: option.splits)
qed

theorem environment_yml_keys_witness:
  "fs_write ext_ok ''environment.yml'' = None \<and>
   (\<exists>ls. files (final_world (run_notebook ext_ok)) ''environment.yml'' = Some (Text ls) \<and>
      yaml_top_keys ls = [''name'', ''dependencies''])"
proof -
  have "fs_write ext_ok ''environment.yml'' = None"
    by (simp add: ext_ok_def)
  with environment_yml_keys [of ext_ok] show ?thesis
    by blast
qed

text \<open>
  C9. One environment name everywhere: the \<^verbatim>\<open>name\<close> of \<^verbatim>\<open>environment.yml\<close>, the
  argument of \<^verbatim>\<open>conda activate\<close> and the argument of \<^verbatim>\<open>conda pack -n\<close> are all
  \<^verbatim>\<open>old-sklearn\<close>; and the file name given to \<^verbatim>\<open>conda pack -o\<close> is the base name
  of the path that the Docker command assigns to \<^verbatim>\<open>MLSERVER_ENV_TARBALL\<close>.
\<close>

theorem environment_name_consistent:
  "Option.bind (environment_yml (notebook :: 'a cell list)) (yaml_scalar ''name'') =
     Some ''old-sklearn'' \<and>
   Option.bind (conda_activate (notebook :: 'a cell list)) (option_arg ''activate'') =
     Some ''old-sklearn'' \<and>
   Option.bind (conda_pack (notebook :: 'a cell list)) (option_arg ''-n'') =
     Some ''old-sklearn'' \<and>
   Option.bind (conda_pack (notebook :: 'a cell list)) (option_arg ''-o'') =
     Some ''old-sklearn.tar.gz'' \<and>
   map_option (\<lambda>(k, v). (k, basename v))
       (Option.bind (docker_run (notebook :: 'a cell list)) docker_env) =
     Some (''MLSERVER_ENV_TARBALL'', ''old-sklearn.tar.gz'')"
proof -
  have "Option.bind (environment_yml (notebook :: 'a cell list)) (yaml_scalar ''name'') =
      Some ''old-sklearn''"
    using environment_yml_top [where ?'a = 'a] by (auto simp: yaml_scalar_def)
  then show ?thesis
    by (simp add: conda_activate_def conda_pack_def docker_run_def command_def
          notebook_shell notebook_shown docker_env_def cut_at_def basename_def)
qed

text \<open>
  C6. The command that launches the container mounts the working directory at
  \<^verbatim>\<open>/mnt/models\<close> and sets \<^verbatim>\<open>MLSERVER_ENV_TARBALL\<close> to the path under which the
  container finds the tarball that \<^verbatim>\<open>conda pack -o old-sklearn.tar.gz\<close> wrote into the
  working directory.
\<close>

theorem docker_run_mounts_tarball:
  "Option.bind (docker_run (notebook :: 'a cell list)) docker_volume =
     Some (''$PWD'', ''/mnt/models'') \<and>
   Option.bind (docker_run (notebook :: 'a cell list)) docker_env =
     Some (''MLSERVER_ENV_TARBALL'', ''/mnt/models/old-sklearn.tar.gz'') \<and>
   Option.bind (Option.bind (conda_pack (notebook :: 'a cell list)) (option_arg ''-o''))
       (\<lambda>t. in_container (''$PWD'', ''/mnt/models'') (from_cwd ''$PWD'' t)) =
     Some ''/mnt/models/old-sklearn.tar.gz''"
  by (simp add: conda_pack_def docker_run_def command_def notebook_shell notebook_shown
        docker_env_def docker_volume_def cut_at_def in_container_def from_cwd_def)

subsection \<open>About the runs of the notebook\<close>




text \<open>
  C2. The body of every request the notebook sends is a JSON object with the one key
  \<^verbatim>\<open>inputs\<close>, whose value is an array, and every element of the array is an object
  with the keys \<^verbatim>\<open>name\<close>, \<^verbatim>\<open>shape\<close>, \<^verbatim>\<open>datatype\<close> and \<^verbatim>\<open>data\<close> and no other.
\<close>

theorem request_body_keys:
  "\<forall>u j. HttpPost u j \<in> set (log (final_world (run_notebook x))) \<longrightarrow>
     (\<exists>inputs. j = JObj [(''inputs'', JArr inputs)] \<and> inputs \<noteq> [] \<and>
        (\<forall>i \<in> set inputs. \<exists>members. i = JObj members \<and>
           map fst members = [''name'', ''shape'', ''datatype'', ''data'']))"
proof (intro allI impI)
  fix u j
  assume "HttpPost u j \<in> set (log (final_world (run_notebook x)))"
  then obtain a where "j = request_of a"
    using posts_of_run(2) by blast
  then show "\<exists>inputs. j = JObj [(''inputs'', JArr inputs)] \<and> inputs \<noteq> [] \<and>
        (\<forall>i \<in> set inputs. \<exists>members. i = JObj members \<and>
           map fst members = [''name'', ''shape'', ''datatype'', ''data''])"
    by (simp add: request_of_def)
qed

theorem request_body_keys_witness:
  "\<exists>u j inputs. HttpPost u j \<in> set (log (final_world (run_notebook ext_ok))) \<and>
     j = JObj [(''inputs'', JArr inputs)] \<and>
     map (\<lambda>i. case i of JObj members \<Rightarrow> map fst members | _ \<Rightarrow> []) inputs =
       [[''name'', ''shape'', ''datatype'', ''data'']]"
proof -
  from ext_ok_completed obtain Xa ya a j where
    l: "log (final_world (run_notebook ext_ok)) = full_log ext_ok Xa ya a j"
    by (rule completed_log)
  then have m: "HttpPost ''http://localhost:8080/v2/models/mnist-svm/infer'' (request_of a)
      \<in> set (log (final_world (run_notebook ext_ok)))"
    by (simp add: full_log_def)
  with request_body_keys [of ext_ok] obtain inputs where
    "request_of a = JObj [(''inputs'', JArr inputs)]"
    by blast
  with m show ?thesis
    by (intro exI [of _ "''http://localhost:8080/v2/models/mnist-svm/infer''"]
          exI [of _ "request_of a"] exI [of _ inputs])
       (auto simp: request_of_def)
qed

text \<open>
  C5. The classifier is fitted at most once in a run, and exactly once in a run that
  completes. It is fitted on the training part of the split without shuffling, with a
  test size of one half, of the dataset reshaped to one row a sample: with \<open>n\<close>
  samples, on the first \<open>n div 2\<close> rows and the first \<open>n div 2\<close> labels.
\<close>

theorem fit_once_on_first_half:
  "length (filter is_fit (log (final_world (run_notebook x)))) \<le> 1 \<and>
   (completed (run_notebook x) \<longrightarrow>
      length (filter is_fit (log (final_world (run_notebook x)))) = 1) \<and>
   (\<forall>X y. FitCalled X y \<in> set (log (final_world (run_notebook x))) \<longrightarrow>
      (\<exists>d n ns ms c. load_digits x = Inr d \<and> shape (images d) = n # ns \<and>
         shape (target d) = n # ms \<and> c = length (elems (images d)) div n \<and>
         X = \<lparr> shape = [n div 2, c], elems = take (n div 2 * c) (elems (images d)) \<rparr> \<and>
         y = \<lparr> shape = (n div 2) # ms,
               elems = take (n div 2 * prod_list ms) (elems (target d)) \<rparr>))"
proof (intro conjI allI impI)
  show "length (filter is_fit (log (final_world (run_notebook x)))) \<le> 1"
    by (rule steps_of_run)
next
  assume "completed (run_notebook x)"
  then obtain Xa ya a j where "log (final_world (run_notebook x)) = full_log x Xa ya a j"
    by (rule completed_log)
  then show "length (filter is_fit (log (final_world (run_notebook x)))) = 1"
    by (simp add: full_log_facts)
next
  fix X y
  assume "FitCalled X y \<in> set (log (final_world (run_notebook x)))"
  then obtain Xb yb where "prepared x X Xb y yb"
    using fits_of_run by blast
  then show "\<exists>d n ns ms c. load_digits x = Inr d \<and> shape (images d) = n # ns \<and>
         shape (target d) = n # ms \<and> c = length (elems (images d)) div n \<and>
         X = \<lparr> shape = [n div 2, c], elems = take (n div 2 * c) (elems (images d)) \<rparr> \<and>
         y = \<lparr> shape = (n div 2) # ms,
               elems = take (n div 2 * prod_list ms) (elems (target d)) \<rparr>"
    by (rule prepared_arrays) blast
qed

theorem fit_once_on_first_half_witness:
  "completed (run_notebook ext_ok) \<and>
   filter is_fit (log (final_world (run_notebook ext_ok))) =
     [FitCalled \<lparr> shape = [2, 64], elems = replicate 128 0 \<rparr> \<lparr> shape = [2], elems = [0, 1] \<rparr>]"
proof -
  from ext_ok_completed obtain Xa ya a j where
    l: "log (final_world (run_notebook ext_ok)) = full_log ext_ok Xa ya a j"
    by (rule completed_log)
  then have "FitCalled Xa ya \<in> set (log (final_world (run_notebook ext_ok)))"
    by (simp add: full_log_def)
  with fit_once_on_first_half [of ext_ok] obtain d n ns ms c where
    "load_digits ext_ok = Inr d" "shape (images d) = n # ns" "shape (target d) = n # ms"
    "c = length (elems (images d)) div n"
    "Xa = \<lparr> shape = [n div 2, c], elems = take (n div 2 * c) (elems (images d)) \<rparr>"
    "ya = \<lparr> shape = (n div 2) # ms, elems = take (n div 2 * prod_list ms) (elems (target d)) \<rparr>"
    by blast
  then have "Xa = \<lparr> shape = [2, 64], elems = replicate 128 0 \<rparr>"
    "ya = \<lparr> shape = [2], elems = [0, 1] \<rparr>"
    by (auto simp: ext_ok_def four_digits_def)
  with l ext_ok_completed show ?thesis
    by (simp add: full_log_facts)
qed

text \<open>
  C10. For the digits dataset (\<open>n\<close> images of 8 by 8 pixels), the request the notebook
  sends has the shape \<open>(1, 64)\<close>, and its data is one row of 64 values: the first test
  sample, row \<open>n div 2\<close> of the reshaped dataset. So the length of the data is the first
  dimension of the shape and the length of its row is the second.
\<close>

theorem request_shape_matches_data:
  assumes "load_digits x = Inr d" "shape (images d) = [n, 8, 8]" "wf_array (images d)"
    and "HttpPost u j \<in> set (log (final_world (run_notebook x)))"
  shows "\<exists>row. row = take 64 (drop (n div 2 * 64) (elems (images d))) \<and> length row = 64 \<and>
     j = JObj [(''inputs'',
           JArr [JObj [(''name'', JStr ''predict''),
                       (''shape'', JArr [JInt 1, JInt 64]),
                       (''datatype'', JStr ''FP32''),
                       (''data'', JArr [JArr (map JFloat row)])]])]"
proof -
  from assms(4) obtain Xa Xb ya yb a where
    p: "prepared x Xa Xb ya yb" "slice_rows 0 1 Xb = Inr a" "j = request_of a"
    using posts_of_run(2) by blast
  note a = first_test_row [OF p(1,2) assms(1-3)]
  from request_of_row [OF a(1,3)] p(3) a(2,3) show ?thesis
    by simp
qed

theorem request_shape_matches_data_witness:
  "load_digits ext_ok = Inr four_digits \<and> shape (images four_digits) = [4, 8, 8] \<and>
   wf_array (images four_digits) \<and>
   (\<exists>u j. HttpPost u j \<in> set (log (final_world (run_notebook ext_ok))) \<and>
      j = JObj [(''inputs'',
            JArr [JObj [(''name'', JStr ''predict''),
                        (''shape'', JArr [JInt 1, JInt 64]),
                        (''datatype'', JStr ''FP32''),
                        (''data'', JArr [JArr (replicate 64 (JFloat 0))])]])])"
proof -
  have h: "load_digits ext_ok = Inr four_digits" "shape (images four_digits) = [4, 8, 8]"
    "wf_array (images four_digits)"
    by (simp_all add: ext_ok_def four_digits_def wf_array_def)
  from ext_ok_completed obtain Xa ya a j where
    "log (final_world (run_notebook ext_ok)) = full_log ext_ok Xa ya a j"
    by (rule completed_log)
  then have m: "HttpPost ''http://localhost:8080/v2/models/mnist-svm/infer'' (request_of a)
      \<in> set (log (final_world (run_notebook ext_ok)))"
    by (simp add: full_log_def)
  from request_shape_matches_data [OF h m]
  have "request_of a = JObj [(''inputs'',
            JArr [JObj [(''name'', JStr ''predict''),
                        (''shape'', JArr [JInt 1, JInt 64]),
                        (''datatype'', JStr ''FP32''),
                        (''data'', JArr [JArr (replicate 64 (JFloat 0))])]])]"
    by (simp add: four_digits_def)
  with h m show ?thesis
    by blast
qed

text \<open>
  C8. Whenever the notebook sends a request, the run has written
  \<^verbatim>\<open>model-settings.json\<close> with the text of cell 11, the name of the model in that file
  is \<^verbatim>\<open>mnist-svm\<close>, and it is the model that the URL of the request names.
\<close>

theorem request_targets_settings_model:
  fixes x :: "'a ext"
  shows
  "\<forall>u j. HttpPost u j \<in> set (log (final_world (run_notebook x))) \<longrightarrow>
     (\<exists>ls. files (final_world (run_notebook x)) ''model-settings.json'' = Some (Text ls) \<and>
        model_settings (notebook :: 'a cell list) = Some ls \<and>
        map_of (json_string_members ls) ''name'' = Some ''mnist-svm'' \<and>
        url_model u = Some ''mnist-svm'')"
proof (intro allI impI)
  fix u j
  assume m: "HttpPost u j \<in> set (log (final_world (run_notebook x)))"
  obtain l2 l11 where
    l: "model_settings (notebook :: 'a cell list) = Some l11"
    and f: "files_ok x l2 l11 (final_world (run_notebook x))"
    by (rule files_of_run)
  from l model_settings_members [where ?'a = 'a]
  have n: "map_of (json_string_members l11) ''name'' = Some ''mnist-svm''"
    by auto
  from f m have w: "files (final_world (run_notebook x)) ''model-settings.json'' = Some (Text l11)"
    by (auto simp: files_ok_def)
  from m have "u = ''http://localhost:8080/v2/models/mnist-svm/infer''"
    by (rule posts_of_run)
  then have "url_model u = Some ''mnist-svm''"
    by (simp add: url_model_def)
  with l n w show "\<exists>ls. files (final_world (run_notebook x)) ''model-settings.json'' = Some (Text ls) \<and>
        model_settings (notebook :: 'a cell list) = Some ls \<and>
        map_of (json_string_members ls) ''name'' = Some ''mnist-svm'' \<and>
        url_model u = Some ''mnist-svm''"
    by blast
qed

theorem request_targets_settings_model_witness:
  "\<exists>u j ls. HttpPost u j \<in> set (log (final_world (run_notebook ext_ok))) \<and>
     files (final_world (run_notebook ext_ok)) ''model-settings.json'' = Some (Text ls) \<and>
     map_of (json_string_members ls) ''name'' = url_model u"
proof -
  from ext_ok_completed obtain Xa ya a j where
    "log (final_world (run_notebook ext_ok)) = full_log ext_ok Xa ya a j"
    by (rule completed_log)
  then have "HttpPost ''http://localhost:8080/v2/models/mnist-svm/infer'' (request_of a)
      \<in> set (log (final_world (run_notebook ext_ok)))"
    by (simp only: full_log_facts)
  with request_targets_settings_model [of ext_ok] show ?thesis
    by metis
qed

text \<open>
  C4, as amended. Of the seven steps, a run performs steps 1, 2, 3, 4, 5 and 7, in this
  order, and never step 6: every run performs a prefix of 1, 2, 2, 3, 4, 5, 7 (step 2 is
  two commands), and a run that completes performs all of it. The command of step 6,
  \<^verbatim>\<open>docker run\<close>, is text of markdown cell 12, the only cell that shows a command:
  the cells before it perform steps 1 to 5 when they complete. In the notebook it
  stands after the cells that write files (2, 11), run commands (4, 9) and the Python
  cells 6 and 7, and before the last Python cell (14).
\<close>

theorem documented_steps_of_run:
  "prefix (documented_steps (log (final_world (run_notebook (x :: 'a ext))))) [1, 2, 2, 3, 4, 5, 7] \<and>
   (completed (run_notebook x) \<longrightarrow>
      documented_steps (log (final_world (run_notebook x))) = [1, 2, 2, 3, 4, 5, 7]) \<and>
   (completed (run_cells x (take 12 notebook) initial_world) \<longrightarrow>
      documented_steps (log (final_world (run_cells x (take 12 notebook) initial_world))) =
        [1, 2, 2, 3, 4, 5]) \<and>
   cells_where (\<lambda>c. shown c \<noteq> []) (notebook :: 'a cell list) = [12] \<and>
   \<not> is_code (notebook ! 12 :: 'a cell) \<and>
   map_option (take 2) (docker_run (notebook :: 'a cell list)) = Some [''docker'', ''run''] \<and>
   cells_where (\<lambda>c. written c \<noteq> []) (notebook :: 'a cell list) = [2, 11] \<and>
   cells_where (\<lambda>c. bangs c \<noteq> []) (notebook :: 'a cell list) = [4, 9] \<and>
   cells_where (\<lambda>c. 0 < python_lines c) (notebook :: 'a cell list) = [6, 7, 14]"
proof -
  have c: "documented_steps (log (final_world (run_notebook x))) = [1, 2, 2, 3, 4, 5, 7]"
    if "completed (run_notebook x)"
  proof -
    from that obtain Xa ya a j where "log (final_world (run_notebook x)) = full_log x Xa ya a j"
      by (rule completed_log)
    then show ?thesis
      by (simp add: full_log_facts)
  qed
  have d: "map_option (take 2) (docker_run (notebook :: 'a cell list)) =
      Some [''docker'', ''run'']"
    by (simp add: docker_run_def command_def notebook_shown)
  have b: "documented_steps (log (final_world (run_cells x (take 12 notebook) initial_world))) =
      [1, 2, 2, 3, 4, 5]"
    if "completed (run_cells x (take 12 notebook) initial_world)"
    using outcome_completed [OF steps_before_launch that] .
  show ?thesis
    by (intro conjI impI; (erule c b | rule steps_of_run(1) notebook_positions d))
qed

theorem documented_steps_of_run_witness:
  "completed (run_notebook ext_create_fails) \<and>
   documented_steps (log (final_world (run_notebook ext_create_fails))) = [1, 2, 2, 3, 4, 5, 7]"
  using documented_steps_of_run [of ext_create_fails] ext_create_fails_completed
  by simp

theorem container_launch_not_run:
  "completed (run_notebook ext_ok) \<and>
   6 \<notin> set (documented_steps (log (final_world (run_notebook ext_ok))))"
proof -
  from ext_ok_completed obtain Xa ya a j where
    "log (final_world (run_notebook ext_ok)) = full_log ext_ok Xa ya a j"
    by (rule completed_log)
  with ext_ok_completed show ?thesis
    by (simp add: full_log_facts)
qed

text \<open>
  C3, as amended. Nothing in the notebook catches a failure or looks at a result before
  the next step. A run raises exactly the first exception that a step meets: writing
  \<^verbatim>\<open>environment.yml\<close> or \<^verbatim>\<open>model-settings.json\<close>, an import, loading, reshaping and
  splitting the data, fitting, saving the model, the HTTP call, parsing the response;
  so when writing or saving a file, fitting or the HTTP call raises, the run raises that
  exception. The exit status of a shell command is stored and never read: with any other
  exit statuses the run raises the same or completes the same, and does the same steps.
  The status code of the response is never read either. And no run launches the
  container.
\<close>

theorem exceptions_propagate_statuses_ignored:
  "raised (run_notebook x) = first_failure x \<and>
   (\<forall>p e. FileWritten p \<in> set (log (final_world (run_notebook x))) \<longrightarrow>
      fs_write x p = Some e \<longrightarrow> raised (run_notebook x) = Some e) \<and>
   (\<forall>p e. Dumped p \<in> set (log (final_world (run_notebook x))) \<longrightarrow>
      fs_write x p = Some e \<longrightarrow> raised (run_notebook x) = Some e) \<and>
   (\<forall>X y e. FitCalled X y \<in> set (log (final_world (run_notebook x))) \<longrightarrow>
      fit_raises x X y = Some e \<longrightarrow> raised (run_notebook x) = Some e) \<and>
   (\<forall>u j e. HttpPost u j \<in> set (log (final_world (run_notebook x))) \<longrightarrow>
      post x u j = Inl e \<longrightarrow> raised (run_notebook x) = Some e) \<and>
   (\<forall>s. raised (run_notebook (x\<lparr>system := s\<rparr>)) = raised (run_notebook x) \<and>
      completed (run_notebook (x\<lparr>system := s\<rparr>)) = completed (run_notebook x) \<and>
      map forget_status (log (final_world (run_notebook (x\<lparr>system := s\<rparr>)))) =
        map forget_status (log (final_world (run_notebook x)))) \<and>
   (\<forall>c. raised (run_notebook (with_status_code c x)) = raised (run_notebook x) \<and>
      log (final_world (run_notebook (with_status_code c x))) =
        log (final_world (run_notebook x))) \<and>
   6 \<notin> set (documented_steps (log (final_world (run_notebook x))))"
proof (intro conjI allI impI)
  show "raised (run_notebook x) = first_failure x"
    by (rule raised_of_run)
next
  fix p e
  assume "FileWritten p \<in> set (log (final_world (run_notebook x)))" "fs_write x p = Some e"
  then show "raised (run_notebook x) = Some e"
    by (rule raised_of_run)
next
  fix p e
  assume "Dumped p \<in> set (log (final_world (run_notebook x)))" "fs_write x p = Some e"
  then show "raised (run_notebook x) = Some e"
    by (rule raised_of_run)
next
  fix X y e
  assume "FitCalled X y \<in> set (log (final_world (run_notebook x)))" "fit_raises x X y = Some e"
  then show "raised (run_notebook x) = Some e"
    by (rule raised_of_run)
next
  fix u j e
  assume "HttpPost u j \<in> set (log (final_world (run_notebook x)))" "post x u j = Inl e"
  then show "raised (run_notebook x) = Some e"
    by (rule raised_of_run)
next
  fix s
  show "raised (run_notebook (x\<lparr>system := s\<rparr>)) = raised (run_notebook x)"
    by (rule status_free)
  then show "completed (run_notebook (x\<lparr>system := s\<rparr>)) = completed (run_notebook x)"
    by (simp add: completed_raised)
  show "map forget_status (log (final_world (run_notebook (x\<lparr>system := s\<rparr>)))) =
      map forget_status (log (final_world (run_notebook x)))"
    by (rule status_free)
next
  fix c
  show "raised (run_notebook (with_status_code c x)) = raised (run_notebook x)"
    by (rule status_code_free)
  show "log (final_world (run_notebook (with_status_code c x))) =
      log (final_world (run_notebook x))"
    by (rule status_code_free)
next
  show "6 \<notin> set (documented_steps (log (final_world (run_notebook x))))"
    by (rule no_launch)
qed

theorem exceptions_propagate_statuses_ignored_witness:
  "(\<exists>X y. FitCalled X y \<in> set (log (final_world (run_notebook ext_fit_raises))) \<and>
      fit_raises ext_fit_raises X y = Some (Raised ''fit'')) \<and>
   first_failure ext_fit_raises = Some (Raised ''fit'') \<and>
   raised (run_notebook ext_fit_raises) = Some (Raised ''fit'') \<and>
   raised (run_notebook (ext_fit_raises\<lparr>system := (\<lambda>c. 1)\<rparr>)) = Some (Raised ''fit'')"
proof -
  from ext_fit_raises_fit obtain X y where
    m: "FitCalled X y \<in> set (log (final_world (run_notebook ext_fit_raises)))"
    by (auto simp: outcome_def final_world_def split: sum.splits prod.splits)
  have f: "fit_raises ext_fit_raises X y = Some (Raised ''fit'')"
    by (simp add: ext_fit_raises_def)
  note t = exceptions_propagate_statuses_ignored [of ext_fit_raises]
  from t m f have r: "raised (run_notebook ext_fit_raises) = Some (Raised ''fit'')"
    by blast
  moreover from t r have "first_failure ext_fit_raises = Some (Raised ''fit'')"
    by simp
  moreover from t r
  have "raised (run_notebook (ext_fit_raises\<lparr>system := (\<lambda>c. 1)\<rparr>)) = Some (Raised ''fit'')"
    by simp
  ultimately show ?thesis
    using m f by blast
qed

theorem failed_command_does_not_propagate:
  "system ext_create_fails ''conda env create --force -f environment.yml'' = 1 \<and>
   completed (run_notebook ext_create_fails) \<and>
   raised (run_notebook ext_create_fails) = None"
  using ext_create_fails_completed
  by (simp add: completed_raised ext_create_fails_def)

end
